theory Spec2Isabelle
  imports Complex_Main
begin

section \<open>The product card component\<close>

text \<open>
  A shallow embedding of the product card of \<^verbatim>\<open>src/unnamed/part_000\<close>
  (the React function component \<^verbatim>\<open>ProductCard\<close>). Strings are byte strings (the
  UTF-8 encoding of the JavaScript string), \<^verbatim>\<open>undefined\<close> and \<^verbatim>\<open>null\<close> are
  \<open>None\<close>, component state is passed explicitly, and the functions the component
  imports from the commerce framework are parameters, collected in the record
  \<open>framework\<close>. Telemetry attributes and the quick view button are left out: they read
  the product and the selection, and write nothing the modelled parts read.
\<close>

subsection \<open>JavaScript values\<close>

text \<open>A JavaScript number: \<^verbatim>\<open>NaN\<close> or a finite value. Zero and \<^verbatim>\<open>NaN\<close> are falsy.\<close>

datatype number = NaN | Num real

fun truthy_number :: "number option \<Rightarrow> bool" where
  "truthy_number None = False"
| "truthy_number (Some NaN) = False"
| "truthy_number (Some (Num r)) = (r \<noteq> 0)"

text \<open>A string is falsy when it is \<^verbatim>\<open>undefined\<close> or empty.\<close>

fun truthy_string :: "string option \<Rightarrow> bool" where
  "truthy_string None = False"
| "truthy_string (Some s) = (s \<noteq> [])"

text \<open>\<^verbatim>\<open>x ?? d\<close> on strings.\<close>

fun nullish :: "'a option \<Rightarrow> 'a \<Rightarrow> 'a" where
  "nullish None d = d"
| "nullish (Some x) d = x"

text \<open>\<^verbatim>\<open>ArrayExtensions.hasElements\<close>: the array is defined and not empty.\<close>

fun hasElements :: "'a list option \<Rightarrow> bool" where
  "hasElements None = False"
| "hasElements (Some xs) = (xs \<noteq> [])"

text \<open>\<^verbatim>\<open>ArrayExtensions.validValues\<close>: drops the null entries; no array gives the empty one.\<close>

fun validValues :: "'a option list option \<Rightarrow> 'a list" where
  "validValues None = []"
| "validValues (Some xs) = List.map_filter (\<lambda>x. x) xs"

text \<open>\<^verbatim>\<open>Array.prototype.find\<close>.\<close>

fun find_first :: "('a \<Rightarrow> bool) \<Rightarrow> 'a list \<Rightarrow> 'a option" where
  "find_first p [] = None"
| "find_first p (x # xs) = (if p x then Some x else find_first p xs)"

text \<open>
  \<^verbatim>\<open>toLocaleLowerCase\<close> on the ASCII letters; other bytes are kept.
\<close>

definition lower_char :: "char \<Rightarrow> char" where
  "lower_char c =
     (let n = (of_char c :: nat) in if 65 \<le> n \<and> n \<le> 90 then char_of (n + 32) else c)"

definition toLocaleLowerCase :: "string \<Rightarrow> string" where
  "toLocaleLowerCase s = map lower_char s"

text \<open>
  \<^verbatim>\<open>StringExtensions.isNullOrWhitespace\<close>: empty, or only white space (of the white space
  that \<^verbatim>\<open>trim\<close> removes, the ASCII characters tab, line feed, vertical tab, form feed,
  carriage return and space).
\<close>

definition is_space :: "char \<Rightarrow> bool" where
  "is_space c = ((of_char c :: nat) \<in> {9, 10, 11, 12, 13, 32})"

definition isNullOrWhitespace :: "string \<Rightarrow> bool" where
  "isNullOrWhitespace s = (\<forall>c \<in> set s. is_space c)"

subsection \<open>The retail data model\<close>

text \<open>The string values of the enum \<^verbatim>\<open>DimensionTypes\<close>.\<close>

definition DimensionTypes_none :: string where "DimensionTypes_none = ''none''"
definition DimensionTypes_color :: string where "DimensionTypes_color = ''color''"
definition DimensionTypes_configuration :: string where
  "DimensionTypes_configuration = ''configuration''"
definition DimensionTypes_size :: string where "DimensionTypes_size = ''size''"
definition DimensionTypes_style :: string where "DimensionTypes_style = ''style''"

record AttributeSwatch =
  SwatchValue :: "string option"
  SwatchColorHexCode :: "string option"
  SwatchImageUrl :: "string option"
  ProductImageUrls :: "string list option"
  IsDefault :: "bool option"

record AttributeValue =
  KeyName :: "string option"
  AttributeRecordId :: "int option"
  Swatches :: "AttributeSwatch list option"

record ProductSearchResult =
  RecordId :: int
  ItemId :: "string option"
  Name :: "string option"
  Description :: "string option"
  DefaultUnitOfMeasure :: "string option"
  BasePrice :: "number option"
  Price :: "number option"
  MaxVariantPrice :: "number option"
  MinVariantPrice :: "number option"
  MasterProductId :: "int option"
  PrimaryImageUrl :: "string option"
  AverageRating :: "number option"
  TotalRatings :: "number option"
  AttributeValues :: "AttributeValue list option"

record IProductsDimensionsAvailabilities =
  avail_value :: string
  isDisabled :: bool
  masterProductId :: "int option"

record ProductPrice =
  price_BasePrice :: "number option"
  price_AdjustedPrice :: "number option"
  price_CustomerContextualPrice :: "number option"
  price_MaxVariantPrice :: "number option"
  price_MinVariantPrice :: "number option"

record SimpleProduct =
  sp_RecordId :: int
  sp_ItemId :: "string option"
  sp_Name :: "string option"
  sp_Description :: "string option"
  sp_ProductTypeValue :: int
  sp_DefaultUnitOfMeasure :: "string option"
  sp_BasePrice :: "number option"
  sp_Price :: "number option"
  sp_AdjustedPrice :: "number option"
  sp_MasterProductId :: "int option"
  sp_PrimaryImageUrl :: "string option"

record ISwatchItem =
  itemId :: string
  swatch_value :: string
  dimensionType :: string
  colorHexCode :: "string option"
  imageUrl :: "string option"
  productImageUrls :: "string list option"
  isDefault :: "bool option"
  swatchItemAriaLabelText :: string
  swatch_isDisabled :: "bool option"

record swatch_group =
  recordId :: "int option"
  swatches :: "ISwatchItem list"

subsection \<open>Configuration, props and the framework\<close>

record app_config =
  dimensionToPreSelectInProductCard :: string
  enableStockCheck :: bool
  unitOfMeasureDisplayType :: string
  hideRating :: bool

record IImageSettings =
  cropFocalRegion :: "bool option"

record IProductComponentProps =
  product :: "ProductSearchResult option"
  config :: app_config
  baseUrl :: string
  imageSettings :: "IImageSettings option"
  gridSettings :: "nat option"
  savingsText :: "string option"
  freePriceText :: "string option"
  originalPriceText :: "string option"
  currentPriceText :: "string option"
  ratingAriaLabel :: "string option"
  ratingCountAriaLabel :: "string option"
  allowBack :: "bool option"
  typeName :: string
  moduleId :: string
  inventoryLabel :: "string option"
  isPriceMinMaxEnabled :: "bool option"
  dimensionAvailabilities :: "IProductsDimensionsAvailabilities list option"
  swatchItemAriaLabel :: "string option"

text \<open>
  The imported functions the component calls. \<open>toFixed2\<close> is
  \<^verbatim>\<open>Number.prototype.toFixed(2)\<close>, \<open>numberToString\<close> is \<^verbatim>\<open>toString\<close> on a number,
  \<open>toNumber\<close> is \<^verbatim>\<open>Number(s)\<close> on a string, \<open>idToString\<close> prints a record id inside a
  template literal.
\<close>

record framework =
  getProductPageUrlSync :: "string \<Rightarrow> int \<Rightarrow> string"
  generateImageUrl :: "string option \<Rightarrow> string option"
  checkIfShouldDisplayAsSwatch :: "string \<Rightarrow> bool"
  format :: "string \<Rightarrow> string list \<Rightarrow> string"
  formatCurrency :: "number option \<Rightarrow> string"
  toFixed2 :: "number \<Rightarrow> string"
  numberToString :: "number \<Rightarrow> string"
  toNumber :: "string \<Rightarrow> number"
  idToString :: "int \<Rightarrow> string"

subsection \<open>Rendered elements\<close>

datatype element =
    Tag string string "element list"
  | Txt string
  | PriceComponent ProductPrice "string option" "string option" "string option" "string option"
      "bool option"
  | RatingComponent number "string option" string string
  | Image string string "string option" IImageSettings
  | ProductComponentSwatchComponent "int option" "ISwatchItem list"
  | AddToCartComponent "bool option" SimpleProduct

subsection \<open>Sub-renderers\<close>

definition renderProductUnitOfMeasure :: "string option \<Rightarrow> element option" where
  "renderProductUnitOfMeasure unitOfMeasure =
     (if \<not> truthy_string unitOfMeasure then None
      else Some (Tag ''div'' ''msc-product__unit-of-measure''
                   [Tag ''span'' [] [Txt (the unitOfMeasure)]]))"

definition renderProductAvailability :: "string option \<Rightarrow> element option" where
  "renderProductAvailability inventoryAvailabilityLabel =
     (if \<not> truthy_string inventoryAvailabilityLabel \<or> inventoryAvailabilityLabel = Some []
      then None
      else Some (Tag ''div'' ''msc-product__availability''
                   [Tag ''span'' [] [Txt (the inventoryAvailabilityLabel)]]))"

definition getRatingAriaLabel :: "framework \<Rightarrow> number option \<Rightarrow> string option \<Rightarrow> string" where
  "getRatingAriaLabel fw rating ratingAriaLabelText =
     (if truthy_number rating \<and> truthy_string ratingAriaLabelText
      then let roundedRating = toFixed2 fw (the rating)
           in format fw (the ratingAriaLabelText) [roundedRating, ''5'']
      else [])"

definition getReviewAriaLabel :: "framework \<Rightarrow> number option \<Rightarrow> string option \<Rightarrow> string" where
  "getReviewAriaLabel fw reviewCount ratingCountAriaLabelText =
     (if truthy_number reviewCount \<and> truthy_string ratingCountAriaLabelText
      then format fw (the ratingCountAriaLabelText) [numberToString fw (the reviewCount)]
      else [])"

definition renderLabel ::
  "framework \<Rightarrow> string option \<Rightarrow> string option \<Rightarrow> number option \<Rightarrow> string option \<Rightarrow>
   number option \<Rightarrow> string option \<Rightarrow> string" where
  "renderLabel fw name price rating ratingAriaLabelText reviewCount ratingCountAriaLabelText =
     (let reviewCountArialableText =
            getReviewAriaLabel fw reviewCount (Some (nullish ratingCountAriaLabelText []))
      in nullish name [] @ '' '' @ nullish price [] @ '' '' @
         getRatingAriaLabel fw rating ratingAriaLabelText @
         (if reviewCountArialableText \<noteq> [] then '' '' @ reviewCountArialableText else []))"

definition renderProductPlacementImage ::
  "IImageSettings option \<Rightarrow> nat option \<Rightarrow> string option \<Rightarrow> string option \<Rightarrow> string option \<Rightarrow>
   element option" where
  "renderProductPlacementImage productCardimageSettings gridSetting imageUrlArg fallbackImageUrl
       altText =
     (if \<not> truthy_string imageUrlArg \<or> gridSetting = None \<or> productCardimageSettings = None
      then None
      else Some (Image (the imageUrlArg) (if truthy_string altText then the altText else [])
                   fallbackImageUrl
                   ((the productCardimageSettings)\<lparr>cropFocalRegion := Some True\<rparr>)))"

definition renderPrice ::
  "IProductComponentProps \<Rightarrow> number option \<Rightarrow> number option \<Rightarrow> number option \<Rightarrow>
   number option \<Rightarrow> string option \<Rightarrow> string option \<Rightarrow> string option \<Rightarrow> string option \<Rightarrow>
   element option" where
  "renderPrice props basePrice adjustedPrice maxVariantPrice minVariantPrice
       savingsPriceResourceText freePriceResourceText originalPriceResourceText
       currentPriceResourceText =
     (let price = \<lparr>price_BasePrice = basePrice,
                   price_AdjustedPrice = adjustedPrice,
                   price_CustomerContextualPrice = adjustedPrice,
                   price_MaxVariantPrice =
                     (if truthy_number maxVariantPrice then maxVariantPrice else adjustedPrice),
                   price_MinVariantPrice =
                     (if truthy_number minVariantPrice then minVariantPrice else adjustedPrice)\<rparr>
      in Some (PriceComponent price savingsPriceResourceText freePriceResourceText
                 originalPriceResourceText currentPriceResourceText
                 (isPriceMinMaxEnabled props)))"

definition renderDescription :: "string option \<Rightarrow> element option" where
  "renderDescription description =
     Some (Tag ''p'' ''msc-product__text''
             (case description of None \<Rightarrow> [] | Some d \<Rightarrow> [Txt d]))"

definition renderRating ::
  "framework \<Rightarrow> IProductComponentProps \<Rightarrow> number option \<Rightarrow> number option \<Rightarrow> string option \<Rightarrow>
   element option" where
  "renderRating fw props avgRating totalRatings ariaLabel =
     (if \<not> truthy_number avgRating then None
      else
        let numberRatings =
              (case totalRatings of
                 None \<Rightarrow> None
               | Some n \<Rightarrow> (if numberToString fw n = [] then None
                            else Some (numberToString fw n)));
            ratingAriaLabelText = getRatingAriaLabel fw avgRating ariaLabel;
            ratingCountAriaLabelText =
              getReviewAriaLabel fw
                (Some (case numberRatings of None \<Rightarrow> NaN | Some s \<Rightarrow> toNumber fw s))
                (ratingCountAriaLabel props)
        in Some (RatingComponent (the avgRating) numberRatings ratingAriaLabelText
                   ratingCountAriaLabelText))"

subsection \<open>Page URLs\<close>

text \<open>
  The part of the platform class \<^verbatim>\<open>URL\<close> that the component uses, after the URL
  standard: the parser, the getters \<^verbatim>\<open>search\<close>, \<^verbatim>\<open>pathname\<close> and \<^verbatim>\<open>href\<close>,
  the setter of \<^verbatim>\<open>search\<close> and \<^verbatim>\<open>searchParams.delete\<close>. The inputs covered are
  those the component produces: references relative to the site's root (a path, a query, a
  fragment) and absolute URLs of the base's own origin, with a base that is an http or
  https origin. The steps of the standard that are written out are the trimming of the
  input, the split into path, query and fragment, the percent-encoding of each part, and
  the form-urlencoded parsing and serialising of the query. Dot segments and backslashes in
  paths are not rewritten, and percent-decoded bytes are not checked to be UTF-8.
\<close>

record URL =
  origin :: string
  pathname :: string
  query :: "string option"
  fragment :: "string option"

definition code :: "char \<Rightarrow> nat" where
  "code c = of_char c"

definition hexdigit :: "nat \<Rightarrow> char" where
  "hexdigit d = (if d < 10 then char_of (48 + d) else char_of (55 + d))"

definition is_hex :: "char \<Rightarrow> bool" where
  "is_hex c = ((48 \<le> code c \<and> code c \<le> 57) \<or> (65 \<le> code c \<and> code c \<le> 70) \<or>
               (97 \<le> code c \<and> code c \<le> 102))"

definition hex_val :: "char \<Rightarrow> nat" where
  "hex_val c = (if code c \<le> 57 then code c - 48
                else if code c \<le> 70 then code c - 55 else code c - 87)"

definition is_alnum :: "char \<Rightarrow> bool" where
  "is_alnum c = ((48 \<le> code c \<and> code c \<le> 57) \<or> (65 \<le> code c \<and> code c \<le> 90) \<or>
                 (97 \<le> code c \<and> code c \<le> 122))"

text \<open>
  The percent-encode sets of the URL standard, as predicates on bytes: the C0 controls and
  everything above the tilde; for fragments also space, double quote, less-than,
  greater-than and backtick; for queries space, double quote, hash, less-than,
  greater-than and the single quote; for paths the query set without the single quote,
  and question mark, caret, backtick and braces.
\<close>

definition c0_control_set :: "char \<Rightarrow> bool" where
  "c0_control_set c = (code c \<le> 31 \<or> 126 < code c)"

definition fragment_set :: "char \<Rightarrow> bool" where
  "fragment_set c = (c0_control_set c \<or> code c \<in> {32, 34, 60, 62, 96})"

text \<open>The special-query set: http and https are special schemes.\<close>

definition query_set :: "char \<Rightarrow> bool" where
  "query_set c = (c0_control_set c \<or> code c \<in> {32, 34, 35, 60, 62, 39})"

definition path_set :: "char \<Rightarrow> bool" where
  "path_set c = (c0_control_set c \<or> code c \<in> {32, 34, 35, 60, 62, 63, 94, 96, 123, 125})"

definition urlencoded_safe :: "char \<Rightarrow> bool" where
  "urlencoded_safe c = (is_alnum c \<or> c \<in> set ''*-._'')"

definition percent_encode_byte :: "char \<Rightarrow> string" where
  "percent_encode_byte c = [CHR ''%'', hexdigit (code c div 16), hexdigit (code c mod 16)]"

definition percent_encode :: "(char \<Rightarrow> bool) \<Rightarrow> string \<Rightarrow> string" where
  "percent_encode P s = concat (map (\<lambda>c. if P c then percent_encode_byte c else [c]) s)"

fun percent_decode :: "string \<Rightarrow> string" where
  "percent_decode (c # h # l # rest) =
     (if c = CHR ''%'' \<and> is_hex h \<and> is_hex l
      then char_of (16 * hex_val h + hex_val l) # percent_decode rest
      else c # percent_decode (h # l # rest))"
| "percent_decode cs = cs"

text \<open>Splitting at the first occurrence of a character, and at every occurrence.\<close>

definition before :: "char \<Rightarrow> string \<Rightarrow> string" where
  "before c s = takeWhile (\<lambda>x. x \<noteq> c) s"

definition after :: "char \<Rightarrow> string \<Rightarrow> string option" where
  "after c s = (case dropWhile (\<lambda>x. x \<noteq> c) s of [] \<Rightarrow> None | _ # r \<Rightarrow> Some r)"

fun split_on :: "char \<Rightarrow> string \<Rightarrow> string list" where
  "split_on c [] = [[]]"
| "split_on c (x # xs) =
     (if x = c then [] # split_on c xs
      else (x # hd (split_on c xs)) # tl (split_on c xs))"

text \<open>The form-urlencoded parser and serialiser, which \<^verbatim>\<open>searchParams\<close> is built on.\<close>

definition plus_to_space :: "string \<Rightarrow> string" where
  "plus_to_space s = map (\<lambda>c. if c = CHR ''+'' then CHR '' '' else c) s"

definition parse_pair :: "string \<Rightarrow> string \<times> string" where
  "parse_pair s =
     (percent_decode (plus_to_space (before CHR ''='' s)),
      percent_decode (plus_to_space (nullish (after CHR ''='' s) [])))"

definition parse_urlencoded :: "string \<Rightarrow> (string \<times> string) list" where
  "parse_urlencoded s = map parse_pair (filter (\<lambda>x. x \<noteq> []) (split_on CHR ''&'' s))"

definition urlencoded_byte_serialize :: "string \<Rightarrow> string" where
  "urlencoded_byte_serialize s =
     concat (map (\<lambda>c. if c = CHR '' '' then ''+''
                      else if urlencoded_safe c then [c] else percent_encode_byte c) s)"

fun serialize_urlencoded :: "(string \<times> string) list \<Rightarrow> string" where
  "serialize_urlencoded [] = []"
| "serialize_urlencoded [(n, v)] =
     urlencoded_byte_serialize n @ ''='' @ urlencoded_byte_serialize v"
| "serialize_urlencoded ((n, v) # ps) =
     urlencoded_byte_serialize n @ ''='' @ urlencoded_byte_serialize v @ ''&'' @
     serialize_urlencoded ps"

text \<open>The parser: \<^verbatim>\<open>new URL(input, base)\<close>.\<close>

definition is_c0_or_space :: "char \<Rightarrow> bool" where
  "is_c0_or_space c = (code c \<le> 32)"

definition is_tab_or_newline :: "char \<Rightarrow> bool" where
  "is_tab_or_newline c = (code c = 9 \<or> code c = 10 \<or> code c = 13)"

definition trim_input :: "string \<Rightarrow> string" where
  "trim_input s =
     filter (\<lambda>c. \<not> is_tab_or_newline c)
       (rev (dropWhile is_c0_or_space (rev (dropWhile is_c0_or_space s))))"

definition is_host_char :: "char \<Rightarrow> bool" where
  "is_host_char c = (is_alnum c \<or> c \<in> set ''.-:'')"

definition url_origin :: "string \<Rightarrow> string" where
  "url_origin base = (if base \<noteq> [] \<and> last base = CHR ''/'' then butlast base else base)"

definition valid_origin :: "string \<Rightarrow> bool" where
  "valid_origin org =
     ((take 8 org = ''https://'' \<and> drop 8 org \<noteq> [] \<and> list_all is_host_char (drop 8 org)) \<or>
      (take 7 org = ''http://'' \<and> drop 7 org \<noteq> [] \<and> list_all is_host_char (drop 7 org)))"

definition valid_base :: "string \<Rightarrow> bool" where
  "valid_base base = valid_origin (url_origin base)"

definition strip_origin :: "string \<Rightarrow> string \<Rightarrow> string" where
  "strip_origin org s =
     (let r = drop (length org) s
      in if take (length org) s = org \<and> (r = [] \<or> hd r \<in> set ''/?#'') then r else s)"

definition new_URL :: "string \<Rightarrow> string \<Rightarrow> URL" where
  "new_URL input base =
     (let rel = strip_origin (url_origin base) (trim_input input);
          front = before CHR ''#'' rel;
          path = before CHR ''?'' front
      in \<lparr>origin = url_origin base,
          pathname = percent_encode path_set
                       (if path \<noteq> [] \<and> hd path = CHR ''/'' then path else CHR ''/'' # path),
          query = map_option (percent_encode query_set) (after CHR ''?'' front),
          fragment = map_option (percent_encode fragment_set) (after CHR ''#'' rel)\<rparr>)"

definition search :: "URL \<Rightarrow> string" where
  "search u = (case query u of None \<Rightarrow> [] | Some q \<Rightarrow> if q = [] then [] else CHR ''?'' # q)"

definition href :: "URL \<Rightarrow> string" where
  "href u = origin u @ pathname u @
            (case query u of None \<Rightarrow> [] | Some q \<Rightarrow> CHR ''?'' # q) @
            (case fragment u of None \<Rightarrow> [] | Some f \<Rightarrow> CHR ''#'' # f)"

text \<open>
  The setter of \<^verbatim>\<open>search\<close>: the empty string clears the query; otherwise one leading
  question mark is dropped and the rest is parsed in the query state.
\<close>

definition strip_question :: "string \<Rightarrow> string" where
  "strip_question v = (case v of [] \<Rightarrow> [] | c # r \<Rightarrow> if c = CHR ''?'' then r else v)"

definition query_encode :: "string \<Rightarrow> string" where
  "query_encode v = percent_encode query_set (filter (\<lambda>c. \<not> is_tab_or_newline c) v)"

definition set_search :: "URL \<Rightarrow> string \<Rightarrow> URL" where
  "set_search u v =
     (if v = [] then u\<lparr>query := None\<rparr>
      else u\<lparr>query := Some (query_encode (strip_question v))\<rparr>)"

text \<open>The entries of \<^verbatim>\<open>searchParams\<close>, and \<^verbatim>\<open>searchParams.delete(name)\<close>.\<close>

definition searchParams :: "URL \<Rightarrow> (string \<times> string) list" where
  "searchParams u = parse_urlencoded (nullish (query u) [])"

definition searchParams_delete :: "URL \<Rightarrow> string \<Rightarrow> URL" where
  "searchParams_delete u name =
     (let serializedQuery =
            serialize_urlencoded (filter (\<lambda>p. fst p \<noteq> name) (searchParams u))
      in u\<lparr>query := (if serializedQuery = [] then None else Some serializedQuery)\<rparr>)"

definition getAll :: "string \<Rightarrow> (string \<times> string) list \<Rightarrow> string list" where
  "getAll name ps = map snd (filter (\<lambda>p. fst p = name) ps)"

text \<open>\<^verbatim>\<open>String.prototype.includes\<close>.\<close>

fun str_includes :: "string \<Rightarrow> string \<Rightarrow> bool" where
  "str_includes [] t = (t = [])"
| "str_includes (c # cs) t = (take (length t) (c # cs) = t \<or> str_includes cs t)"

definition updateProductUrl :: "string \<Rightarrow> string \<Rightarrow> string \<Rightarrow> string" where
  "updateProductUrl productDetailsPageUrl base queryString =
     (let sourceUrl0 = new_URL productDetailsPageUrl base;
          sourceUrl =
            (if search sourceUrl0 \<noteq> []
             then set_search sourceUrl0 (search sourceUrl0 @ ''&'' @ queryString)
             else set_search sourceUrl0 (search sourceUrl0 @ queryString));
          updatedUrl = new_URL (href sourceUrl) (origin sourceUrl)
      in pathname updatedUrl @ search sourceUrl)"

subsection \<open>Default swatch, initial state and the swatch callback\<close>

definition getDefaultColorSwatchSelected ::
  "ProductSearchResult option \<Rightarrow> AttributeSwatch option" where
  "getDefaultColorSwatchSelected productData =
     (case productData of
        None \<Rightarrow> None
      | Some p \<Rightarrow>
          (case AttributeValues p of
             None \<Rightarrow> None
           | Some attributeValues \<Rightarrow>
               (let colorAttribute =
                      find_first
                        (\<lambda>attributeValue.
                           map_option toLocaleLowerCase (KeyName attributeValue) =
                           Some DimensionTypes_color)
                        attributeValues;
                    colorSwatches = (case colorAttribute of None \<Rightarrow> None | Some a \<Rightarrow> Swatches a)
                in if \<not> hasElements colorSwatches then None
                   else (case find_first (\<lambda>item. IsDefault item = Some True) (the colorSwatches) of
                           Some d \<Rightarrow> Some d
                         | None \<Rightarrow> (case the colorSwatches of [] \<Rightarrow> None | x # _ \<Rightarrow> Some x)))))"

definition primaryImageUrl :: "ProductSearchResult option \<Rightarrow> string option" where
  "primaryImageUrl productData = (case productData of None \<Rightarrow> None | Some p \<Rightarrow> PrimaryImageUrl p)"

text \<open>\<^verbatim>\<open>xs[0]\<close> on an array that may be undefined or empty.\<close>

fun first_element :: "'a list option \<Rightarrow> 'a option" where
  "first_element None = None"
| "first_element (Some []) = None"
| "first_element (Some (x # xs)) = Some x"

definition getProductImageUrlFromDefaultColorSwatch ::
  "framework \<Rightarrow> IProductComponentProps \<Rightarrow> ProductSearchResult option \<Rightarrow> string option" where
  "getProductImageUrlFromDefaultColorSwatch fw props productData =
     (if dimensionToPreSelectInProductCard (config props) = DimensionTypes_none
      then primaryImageUrl productData
      else (case getDefaultColorSwatchSelected productData of
              None \<Rightarrow> primaryImageUrl productData
            | Some defaultSwatch \<Rightarrow>
                if hasElements (ProductImageUrls defaultSwatch)
                then generateImageUrl fw (first_element (ProductImageUrls defaultSwatch))
                else primaryImageUrl productData))"

definition getProductPageUrlFromDefaultSwatch ::
  "IProductComponentProps \<Rightarrow> string \<Rightarrow> ProductSearchResult option \<Rightarrow> string" where
  "getProductPageUrlFromDefaultSwatch props productUrl productData =
     (if dimensionToPreSelectInProductCard (config props) = DimensionTypes_none then productUrl
      else (case getDefaultColorSwatchSelected productData of
              None \<Rightarrow> productUrl
            | Some defaultSwatch \<Rightarrow>
                if \<not> truthy_string (SwatchValue defaultSwatch) then productUrl
                else updateProductUrl productUrl (baseUrl props)
                       (''color='' @ the (SwatchValue defaultSwatch))))"

text \<open>
  The component's state: the three \<^verbatim>\<open>useState\<close> cells. The selection dictionary maps
  a dimension type to the swatch last selected for it.
\<close>

record card_state =
  productPageUrl :: string
  productImageUrl :: "string option"
  selectedSwatchItems :: "string \<Rightarrow> ISwatchItem option"

definition initial_productUrl :: "framework \<Rightarrow> IProductComponentProps \<Rightarrow> string" where
  "initial_productUrl fw props =
     (let productUrl =
            (case product props of
               None \<Rightarrow> []
             | Some p \<Rightarrow> getProductPageUrlSync fw (nullish (Name p) []) (RecordId p))
      in if allowBack props = Some True \<and> productUrl \<noteq> []
         then updateProductUrl productUrl (baseUrl props) ''back=true''
         else productUrl)"

definition initial_state :: "framework \<Rightarrow> IProductComponentProps \<Rightarrow> card_state" where
  "initial_state fw props =
     \<lparr>productPageUrl =
        getProductPageUrlFromDefaultSwatch props (initial_productUrl fw props) (product props),
      productImageUrl =
        (case getProductImageUrlFromDefaultColorSwatch fw props (product props) of
           Some u \<Rightarrow> Some u
         | None \<Rightarrow> primaryImageUrl (product props)),
      selectedSwatchItems = (\<lambda>d. None)\<rparr>"

text \<open>
  The callback handed to the swatch components. The context it receives is the card's own,
  so one base URL serves both uses.
\<close>

definition updatePageAndImageUrl ::
  "framework \<Rightarrow> IProductComponentProps \<Rightarrow> card_state \<Rightarrow> ISwatchItem \<Rightarrow> card_state" where
  "updatePageAndImageUrl fw props st swatchItem =
     (let dimType = dimensionType swatchItem;
          st1 = st\<lparr>selectedSwatchItems := (selectedSwatchItems st)(dimType \<mapsto> swatchItem)\<rparr>
      in if isNullOrWhitespace (swatch_value swatchItem) then st1
         else
           let queryString = dimType @ ''='' @ swatch_value swatchItem;
               productPageUrlWithSwatch =
                 (if str_includes (productPageUrl st) dimType
                  then let newUrl = searchParams_delete
                                      (new_URL (productPageUrl st) (baseUrl props)) dimType
                       in updateProductUrl (href newUrl) (baseUrl props) queryString
                  else updateProductUrl (productPageUrl st) (baseUrl props) queryString);
               st2 = st1\<lparr>productPageUrl := productPageUrlWithSwatch\<rparr>
           in if dimType = DimensionTypes_color
              then st2\<lparr>productImageUrl :=
                         generateImageUrl fw
                           (if hasElements (productImageUrls swatchItem)
                            then first_element (productImageUrls swatchItem) else None)\<rparr>
              else st2)"

subsection \<open>Swatch items and the cart button\<close>

definition toSwatchItem ::
  "framework \<Rightarrow> IProductComponentProps \<Rightarrow> AttributeValue \<Rightarrow> string \<Rightarrow> AttributeSwatch \<Rightarrow>
   ISwatchItem" where
  "toSwatchItem fw props item dimensionTypeValue swatchItem =
     \<lparr>itemId = (case AttributeRecordId item of None \<Rightarrow> [] | Some r \<Rightarrow> idToString fw r) @ ''-'' @
                dimensionTypeValue @ ''-'' @ nullish (SwatchValue swatchItem) [],
      swatch_value = nullish (SwatchValue swatchItem) [],
      dimensionType = dimensionTypeValue,
      colorHexCode = SwatchColorHexCode swatchItem,
      imageUrl = SwatchImageUrl swatchItem,
      productImageUrls = ProductImageUrls swatchItem,
      isDefault = IsDefault swatchItem,
      swatchItemAriaLabelText =
        (if truthy_string (swatchItemAriaLabel props)
         then format fw (the (swatchItemAriaLabel props)) [dimensionTypeValue] else []),
      swatch_isDisabled =
        (if \<not> enableStockCheck (config props) then Some False
         else (case dimensionAvailabilities props of
                 None \<Rightarrow> None
               | Some das \<Rightarrow>
                   map_option isDisabled
                     (find_first
                        (\<lambda>dimensionAvailability.
                           avail_value dimensionAvailability = nullish (SwatchValue swatchItem) [])
                        das)))\<rparr>"

definition toSwatchGroup ::
  "framework \<Rightarrow> IProductComponentProps \<Rightarrow> AttributeValue \<Rightarrow> swatch_group option" where
  "toSwatchGroup fw props item =
     (let dimensionTypeValue = nullish (map_option toLocaleLowerCase (KeyName item)) []
      in if \<not> checkIfShouldDisplayAsSwatch fw dimensionTypeValue then None
         else
           let swatches0 =
                 nullish (map_option (map (toSwatchItem fw props item dimensionTypeValue))
                            (Swatches item)) [];
               swatches1 =
                 (if dimensionToPreSelectInProductCard (config props) \<noteq> DimensionTypes_none \<and>
                     swatches0 \<noteq> [] \<and>
                     \<not> list_ex (\<lambda>swatch. isDefault swatch = Some True) swatches0 \<and>
                     dimensionTypeValue = DimensionTypes_color
                  then (case swatches0 of
                          [] \<Rightarrow> []
                        | x # xs \<Rightarrow> x\<lparr>isDefault := Some True\<rparr> # xs)
                  else swatches0)
           in Some \<lparr>recordId = AttributeRecordId item, swatches = swatches1\<rparr>)"

definition swatchItems ::
  "framework \<Rightarrow> IProductComponentProps \<Rightarrow> ProductSearchResult \<Rightarrow> swatch_group list" where
  "swatchItems fw props p =
     validValues (map_option (map (toSwatchGroup fw props)) (AttributeValues p))"

definition renderProductDimensions ::
  "framework \<Rightarrow> IProductComponentProps \<Rightarrow> ProductSearchResult \<Rightarrow> element option" where
  "renderProductDimensions fw props p =
     (if swatchItems fw props p = [] then None
      else Some (Tag ''div'' ''msc-product__dimensions''
                   (map (\<lambda>item. ProductComponentSwatchComponent (recordId item) (swatches item))
                      (swatchItems fw props p))))"

text \<open>
  The entry of the availability list that the cart button reads: the first one with a
  truthy master product id equal to the product's.
\<close>

definition productDimensionAvailabilities ::
  "IProductComponentProps \<Rightarrow> ProductSearchResult \<Rightarrow> IProductsDimensionsAvailabilities option"
  where
  "productDimensionAvailabilities props p =
     (case dimensionAvailabilities props of
        None \<Rightarrow> None
      | Some das \<Rightarrow>
          find_first
            (\<lambda>dimensionAvailability.
               hasElements (Some das) \<and>
               masterProductId dimensionAvailability \<noteq> None \<and>
               masterProductId dimensionAvailability \<noteq> Some 0 \<and>
               masterProductId dimensionAvailability = MasterProductId p)
            das)"

definition hasAvailableProducts ::
  "IProductComponentProps \<Rightarrow> ProductSearchResult \<Rightarrow> bool option" where
  "hasAvailableProducts props p = map_option isDisabled (productDimensionAvailabilities props p)"

definition renderCartButton :: "IProductComponentProps \<Rightarrow> ProductSearchResult \<Rightarrow> element" where
  "renderCartButton props p =
     (let product1 =
            \<lparr>sp_RecordId = RecordId p,
             sp_ItemId = ItemId p,
             sp_Name = Name p,
             sp_Description = Description p,
             sp_ProductTypeValue = RecordId p,
             sp_DefaultUnitOfMeasure = DefaultUnitOfMeasure p,
             sp_BasePrice = BasePrice p,
             sp_Price = Price p,
             sp_AdjustedPrice = Price p,
             sp_MasterProductId = MasterProductId p,
             sp_PrimaryImageUrl = PrimaryImageUrl p\<rparr>
      in Tag ''Node'' ''ms-search-result-container__add-to-cart-container''
           [AddToCartComponent (hasAvailableProducts props p) product1])"

subsection \<open>The component\<close>

record card =
  card_href :: string
  card_ariaLabel :: string
  card_image :: "element option"
  card_title :: "string option"
  card_dimensions :: "element option"
  card_price :: "element option"
  card_unitOfMeasure :: "element option"
  card_description :: "element option"
  card_rating :: "element option"
  card_availability :: "element option"
  card_cartButton :: element

text \<open>
  One render of the component with the state cells as React holds them; the result is
  \<open>None\<close> for the null render.
\<close>

definition ProductCard ::
  "framework \<Rightarrow> IProductComponentProps \<Rightarrow> card_state \<Rightarrow> card option" where
  "ProductCard fw props st =
     (case product props of
        None \<Rightarrow> None
      | Some p \<Rightarrow>
          Some \<lparr>card_href = productPageUrl st,
                card_ariaLabel =
                  renderLabel fw (Name p) (Some (formatCurrency fw (Price p))) (AverageRating p)
                    (ratingAriaLabel props) (TotalRatings p) (ratingCountAriaLabel props),
                card_image =
                  renderProductPlacementImage (imageSettings props) (gridSettings props)
                    (productImageUrl st) (PrimaryImageUrl p) (Name p),
                card_title = Name p,
                card_dimensions = renderProductDimensions fw props p,
                card_price =
                  renderPrice props (BasePrice p) (Price p) (MaxVariantPrice p)
                    (MinVariantPrice p) (savingsText props) (freePriceText props)
                    (originalPriceText props) (currentPriceText props),
                card_unitOfMeasure =
                  (if unitOfMeasureDisplayType (config props) = ''buyboxAndBrowse''
                   then renderProductUnitOfMeasure (DefaultUnitOfMeasure p) else None),
                card_description = renderDescription (Description p),
                card_rating =
                  (if \<not> hideRating (config props)
                   then renderRating fw props (AverageRating p) (TotalRatings p)
                          (ratingAriaLabel props)
                   else None),
                card_availability = renderProductAvailability (inventoryLabel props),
                card_cartButton = renderCartButton props p\<rparr>)"

text \<open>The first render: the state cells hold their initial values.\<close>

definition mount :: "framework \<Rightarrow> IProductComponentProps \<Rightarrow> card option" where
  "mount fw props = ProductCard fw props (initial_state fw props)"

subsection \<open>Predicates used in the proofs\<close>

text \<open>
  What the encoders can emit, what a parsed URL looks like, and the names and values for
  which a query parameter reads back as written.
\<close>

definition enc_out :: "char \<Rightarrow> bool" where
  "enc_out c = (c = CHR ''%'' \<or> (48 \<le> code c \<and> code c \<le> 57) \<or> (65 \<le> code c \<and> code c \<le> 70))"

definition form_out :: "char \<Rightarrow> bool" where
  "form_out c = (enc_out c \<or> urlencoded_safe c \<or> c = CHR ''+'')"

definition origin_char :: "char \<Rightarrow> bool" where
  "origin_char c = (is_host_char c \<or> c = CHR ''/'')"

definition clean_url :: "URL \<Rightarrow> bool" where
  "clean_url u =
     (valid_origin (origin u) \<and> pathname u \<noteq> [] \<and> hd (pathname u) = CHR ''/'' \<and>
      (\<forall>c \<in> set (pathname u). \<not> path_set c) \<and>
      (\<forall>q. query u = Some q \<longrightarrow> (\<forall>c \<in> set q. \<not> query_set c)) \<and>
      (\<forall>f. fragment u = Some f \<longrightarrow> (\<forall>c \<in> set f. \<not> fragment_set c)))"

text \<open>The text of a URL after its origin: path, query and fragment.\<close>

definition tail_text :: "string \<Rightarrow> string option \<Rightarrow> string option \<Rightarrow> string" where
  "tail_text p q f = p @ (case q of None \<Rightarrow> [] | Some x \<Rightarrow> CHR ''?'' # x) @
                     (case f of None \<Rightarrow> [] | Some x \<Rightarrow> CHR ''#'' # x)"


text \<open>The URL text that updateProductUrl returns for a parsed URL and a parameter.\<close>

definition appended :: "URL \<Rightarrow> string \<Rightarrow> string" where
  "appended u q =
     pathname u @
     (if search u \<noteq> [] then search u @ ''&'' @ query_encode q
      else let e = query_encode (strip_question q) in if e = [] then [] else CHR ''?'' # e)"

definition safe_name :: "string \<Rightarrow> bool" where
  "safe_name d = (d \<noteq> [] \<and> (\<forall>c \<in> set d. is_alnum c))"

definition plain_value :: "string \<Rightarrow> bool" where
  "plain_value v =
     (\<forall>c \<in> set v. c \<notin> {CHR ''&'', CHR ''+'', CHR ''%''} \<and> \<not> is_tab_or_newline c)"

subsection \<open>Example inputs\<close>

text \<open>
  A small framework, a product with a colour and a size attribute, and props around it;
  the theorems below are instantiated at them.
\<close>

definition example_framework :: framework where
  "example_framework =
     \<lparr>getProductPageUrlSync = (\<lambda>name rid. ''/shirt/1.p''),
      generateImageUrl = (\<lambda>u. case u of None \<Rightarrow> None
                                | Some x \<Rightarrow> if x = [] then None else Some (''/img/'' @ x)),
      checkIfShouldDisplayAsSwatch = (\<lambda>d. d = ''color'' \<or> d = ''size''),
      format = (\<lambda>t args. t @ concat args),
      formatCurrency = (\<lambda>n. ''$10''),
      toFixed2 = (\<lambda>n. ''4.50''),
      numberToString = (\<lambda>n. ''12''),
      toNumber = (\<lambda>s. Num 12),
      idToString = (\<lambda>i. ''7'')\<rparr>"

definition example_red :: AttributeSwatch where
  "example_red =
     \<lparr>SwatchValue = Some ''red'', SwatchColorHexCode = Some ''#ff0000'',
      SwatchImageUrl = None, ProductImageUrls = Some [''red.png''], IsDefault = None\<rparr>"

definition example_blue :: AttributeSwatch where
  "example_blue =
     \<lparr>SwatchValue = Some ''blue'', SwatchColorHexCode = Some ''#0000ff'',
      SwatchImageUrl = None, ProductImageUrls = None, IsDefault = Some True\<rparr>"

definition example_green :: AttributeSwatch where
  "example_green =
     \<lparr>SwatchValue = Some ''green'', SwatchColorHexCode = Some ''#00ff00'',
      SwatchImageUrl = None, ProductImageUrls = Some [''green.png'', ''green2.png''],
      IsDefault = Some True\<rparr>"

definition example_black_white :: AttributeSwatch where
  "example_black_white =
     \<lparr>SwatchValue = Some ''Black&White'', SwatchColorHexCode = None,
      SwatchImageUrl = None, ProductImageUrls = Some [''bw.png''], IsDefault = Some True\<rparr>"

definition example_medium :: AttributeSwatch where
  "example_medium =
     \<lparr>SwatchValue = Some ''M'', SwatchColorHexCode = None,
      SwatchImageUrl = None, ProductImageUrls = None, IsDefault = None\<rparr>"

definition example_product :: "AttributeSwatch list \<Rightarrow> ProductSearchResult" where
  "example_product colours =
     \<lparr>RecordId = 1, ItemId = Some ''0001'', Name = Some ''Shirt'', Description = None,
      DefaultUnitOfMeasure = Some ''ea'', BasePrice = Some (Num 10), Price = Some (Num 10),
      MaxVariantPrice = None, MinVariantPrice = None, MasterProductId = Some 7,
      PrimaryImageUrl = Some ''/primary.png'', AverageRating = Some (Num 0),
      TotalRatings = Some (Num 12),
      AttributeValues =
        Some [\<lparr>KeyName = Some ''Color'', AttributeRecordId = Some 7, Swatches = Some colours\<rparr>,
              \<lparr>KeyName = Some ''Size'', AttributeRecordId = Some 8,
               Swatches = Some [example_medium]\<rparr>]\<rparr>"

definition example_props :: "ProductSearchResult option \<Rightarrow> IProductComponentProps" where
  "example_props p =
     \<lparr>product = p,
      config = \<lparr>dimensionToPreSelectInProductCard = ''color'', enableStockCheck = True,
                unitOfMeasureDisplayType = ''buyboxAndBrowse'', hideRating = False\<rparr>,
      baseUrl = ''https://www.example.com/'',
      imageSettings = Some \<lparr>cropFocalRegion = None\<rparr>,
      gridSettings = Some 0,
      savingsText = None, freePriceText = None, originalPriceText = None,
      currentPriceText = None,
      ratingAriaLabel = Some ''rating '', ratingCountAriaLabel = None,
      allowBack = None, typeName = ''product'', moduleId = ''m1'',
      inventoryLabel = None, isPriceMinMaxEnabled = None,
      dimensionAvailabilities =
        Some [\<lparr>avail_value = ''red'', isDisabled = True, masterProductId = Some 7\<rparr>],
      swatchItemAriaLabel = None\<rparr>"

definition preselect_off :: "IProductComponentProps \<Rightarrow> IProductComponentProps" where
  "preselect_off props =
     props\<lparr>config := (config props)\<lparr>dimensionToPreSelectInProductCard := ''none''\<rparr>\<rparr>"

definition example_swatch :: "string \<Rightarrow> string \<Rightarrow> ISwatchItem" where
  "example_swatch d v =
     \<lparr>itemId = ''7-'' @ d @ ''-'' @ v, swatch_value = v, dimensionType = d,
      colorHexCode = None, imageUrl = None, productImageUrls = Some [''sel.png''],
      isDefault = None, swatchItemAriaLabelText = [], swatch_isDisabled = None\<rparr>"

definition example_state :: "string \<Rightarrow> card_state" where
  "example_state u =
     \<lparr>productPageUrl = u, productImageUrl = Some ''/primary.png'',
      selectedSwatchItems = (\<lambda>d. None)\<rparr>"

section \<open>Properties\<close>

subsection \<open>Auxiliary facts\<close>

lemma toSwatchItem_dim: "dimensionType (toSwatchItem fw props item d sw) = d"
  by (simp add: toSwatchItem_def)

lemma toSwatchGroup_default:
  assumes "toSwatchGroup fw props item = Some g"
    and "dimensionToPreSelectInProductCard (config props) \<noteq> DimensionTypes_none"
    and "s \<in> set (swatches g)" and "dimensionType s = DimensionTypes_color"
  shows "\<exists>s' \<in> set (swatches g). isDefault s' = Some True"
proof -
  let ?d = "nullish (map_option toLocaleLowerCase (KeyName item)) []"
  let ?sw0 = "nullish (map_option (map (toSwatchItem fw props item ?d)) (Swatches item)) []"
  have all_d: "\<forall>x \<in> set ?sw0. dimensionType x = ?d"
    by (cases "Swatches item") (auto simp: toSwatchItem_dim)
  show ?thesis
  proof (cases "list_ex (\<lambda>swatch. isDefault swatch = Some True) ?sw0")
    case True
    then have "swatches g = ?sw0"
      using assms(1) by (auto simp: toSwatchGroup_def Let_def split: if_splits)
    with True show ?thesis by (auto simp: list_ex_iff)
  next
    case no_default: False
    show ?thesis
    proof (cases "?d = DimensionTypes_color")
      case True
      then show ?thesis
        using assms no_default
        by (cases ?sw0) (auto simp: toSwatchGroup_def Let_def split: if_splits)
    next
      case False
      then have "swatches g = ?sw0"
        using assms(1) by (auto simp: toSwatchGroup_def Let_def split: if_splits)
      with all_d assms(3,4) False show ?thesis by auto
    qed
  qed
qed

lemma swatchItems_mem:
  "g \<in> set (swatchItems fw props p) \<Longrightarrow>
   \<exists>avs item. AttributeValues p = Some avs \<and> item \<in> set avs \<and>
     toSwatchGroup fw props item = Some g"
  by (cases "AttributeValues p") (auto simp: swatchItems_def List.map_filter_def)

subsection \<open>Facts about page URLs\<close>

lemma code_char_of: "n < 256 \<Longrightarrow> code (char_of n) = n"
  by (simp add: code_def)

lemma code_lt: "code c < 256"
  by (simp add: code_def)

lemma code_hexdigit:
  "d < 16 \<Longrightarrow> code (hexdigit d) = (if d < 10 then 48 + d else 55 + d)"
  by (simp add: hexdigit_def code_char_of)

lemma hexdigit_hex: "d < 16 \<Longrightarrow> is_hex (hexdigit d) \<and> hex_val (hexdigit d) = d"
  by (auto simp: is_hex_def hex_val_def code_hexdigit)

lemma codes [simp]:
  "code CHR ''%'' = 37" "code CHR ''&'' = 38" "code CHR ''='' = 61" "code CHR ''+'' = 43"
  "code CHR ''#'' = 35" "code CHR ''?'' = 63" "code CHR ''/'' = 47" "code CHR '' '' = 32"
  by (simp_all add: code_def)

lemma enc_out_hexdigit: "d < 16 \<Longrightarrow> enc_out (hexdigit d)"
  by (simp add: enc_out_def code_hexdigit)

lemma percent_encode_byte_out: "x \<in> set (percent_encode_byte c) \<Longrightarrow> enc_out x"
proof -
  assume x: "x \<in> set (percent_encode_byte c)"
  have "code c div 16 < 16" using code_lt [of c] by simp
  moreover have "code c mod 16 < 16" by simp
  moreover have "enc_out CHR ''%''" by (simp add: enc_out_def)
  ultimately show ?thesis
    using x by (auto simp: percent_encode_byte_def enc_out_hexdigit)
qed

lemma percent_encode_append [simp]:
  "percent_encode P (a @ b) = percent_encode P a @ percent_encode P b"
  by (simp add: percent_encode_def)

lemma percent_encode_Nil [simp]: "percent_encode P [] = []"
  by (simp add: percent_encode_def)

lemma percent_encode_Cons:
  "percent_encode P (c # s) = (if P c then percent_encode_byte c else [c]) @ percent_encode P s"
  by (simp add: percent_encode_def)

lemma percent_encode_id: "\<forall>c \<in> set s. \<not> P c \<Longrightarrow> percent_encode P s = s"
  by (induction s) (auto simp: percent_encode_Cons)

lemma percent_encode_set:
  "x \<in> set (percent_encode P s) \<Longrightarrow> (x \<in> set s \<and> \<not> P x) \<or> enc_out x"
  by (induction s) (auto simp: percent_encode_Cons dest: percent_encode_byte_out split: if_splits)

lemma enc_out_not_sets:
  "enc_out c \<Longrightarrow> \<not> query_set c \<and> \<not> path_set c \<and> \<not> fragment_set c \<and>
     \<not> is_tab_or_newline c \<and> \<not> is_c0_or_space c \<and> c \<noteq> CHR ''&'' \<and> c \<noteq> CHR ''='' \<and>
     c \<noteq> CHR ''+'' \<and> c \<noteq> CHR ''#'' \<and> c \<noteq> CHR ''?''"
  by (auto simp: enc_out_def query_set_def path_set_def fragment_set_def c0_control_set_def
      is_tab_or_newline_def is_c0_or_space_def)

lemma percent_decode_Cons:
  assumes "c \<noteq> CHR ''%''"
  shows "percent_decode (c # xs) = c # percent_decode xs"
proof (cases xs)
  case Nil
  then show ?thesis by simp
next
  case (Cons h t)
  with assms show ?thesis by (cases t) auto
qed

lemma percent_decode_byte:
  "percent_decode (percent_encode_byte c @ xs) = c # percent_decode xs"
proof -
  have "code c div 16 < 16" using code_lt [of c] by simp
  moreover have "code c mod 16 < 16" by simp
  ultimately show ?thesis
    by (simp add: percent_encode_byte_def hexdigit_hex code_def)
qed

lemma percent_decode_encode:
  "CHR ''%'' \<notin> set s \<Longrightarrow> percent_decode (percent_encode P s) = s"
  by (induction s) (auto simp: percent_encode_Cons percent_decode_byte percent_decode_Cons)

text \<open>Splitting.\<close>

lemma before_none: "c \<notin> set s \<Longrightarrow> before c s = s"
  by (induction s) (auto simp: before_def)

lemma after_none: "c \<notin> set s \<Longrightarrow> after c s = None"
  by (induction s) (auto simp: after_def)

lemma before_split: "c \<notin> set a \<Longrightarrow> before c (a @ c # b) = a"
  by (induction a) (auto simp: before_def)

lemma after_split: "c \<notin> set a \<Longrightarrow> after c (a @ c # b) = Some b"
  by (induction a) (auto simp: after_def)

lemma split_on_not_Nil [simp]: "split_on c s \<noteq> []"
  by (induction s) auto

lemma split_on_append: "split_on c (a @ c # b) = split_on c a @ split_on c b"
  by (induction a) (auto simp: hd_append tl_append split: list.splits)

lemma split_on_none: "c \<notin> set s \<Longrightarrow> split_on c s = [s]"
  by (induction s) auto

lemma parse_urlencoded_Nil [simp]: "parse_urlencoded [] = []"
  by (simp add: parse_urlencoded_def)

lemma parse_urlencoded_append:
  "parse_urlencoded (a @ CHR ''&'' # b) = parse_urlencoded a @ parse_urlencoded b"
  by (simp add: parse_urlencoded_def split_on_append)

lemma parse_urlencoded_single:
  "CHR ''&'' \<notin> set s \<Longrightarrow> s \<noteq> [] \<Longrightarrow> parse_urlencoded s = [parse_pair s]"
  by (simp add: parse_urlencoded_def split_on_none)

lemma parse_pair_split:
  "CHR ''='' \<notin> set n \<Longrightarrow>
   parse_pair (n @ CHR ''='' # v) =
     (percent_decode (plus_to_space n), percent_decode (plus_to_space v))"
  by (simp add: parse_pair_def before_split after_split)

lemma plus_to_space_id: "CHR ''+'' \<notin> set s \<Longrightarrow> plus_to_space s = s"
  by (induction s) (auto simp: plus_to_space_def)

text \<open>The form-urlencoded round trip.\<close>

lemma urlencoded_safe_codes:
  "urlencoded_safe c \<Longrightarrow> is_alnum c \<or> code c \<in> {42, 45, 46, 95}"
  by (auto simp: urlencoded_safe_def code_def)

lemma form_out_not:
  "form_out c \<Longrightarrow> \<not> query_set c \<and> \<not> is_tab_or_newline c \<and> \<not> is_c0_or_space c \<and>
     c \<noteq> CHR ''&'' \<and> c \<noteq> CHR ''='' \<and> c \<noteq> CHR ''#'' \<and> c \<noteq> CHR ''?''"
  unfolding form_out_def
  by (auto dest!: urlencoded_safe_codes enc_out_not_sets
      simp: is_alnum_def query_set_def c0_control_set_def is_tab_or_newline_def
        is_c0_or_space_def)

lemma urlencoded_byte_serialize_Cons:
  "urlencoded_byte_serialize (c # s) =
     (if c = CHR '' '' then ''+'' else if urlencoded_safe c then [c] else percent_encode_byte c) @
     urlencoded_byte_serialize s"
  by (simp add: urlencoded_byte_serialize_def)

lemma urlencoded_byte_serialize_Nil [simp]: "urlencoded_byte_serialize [] = []"
  by (simp add: urlencoded_byte_serialize_def)

lemma urlencoded_byte_serialize_out:
  "x \<in> set (urlencoded_byte_serialize s) \<Longrightarrow> form_out x"
  by (induction s)
    (auto simp: urlencoded_byte_serialize_Cons form_out_def dest: percent_encode_byte_out
      split: if_splits)

lemma plus_to_space_append [simp]:
  "plus_to_space (a @ b) = plus_to_space a @ plus_to_space b"
  by (simp add: plus_to_space_def)

lemma plus_to_space_byte: "plus_to_space (percent_encode_byte c) = percent_encode_byte c"
  using percent_encode_byte_out [of _ c] enc_out_not_sets
  by (intro plus_to_space_id) blast

lemma safe_not_special:
  "urlencoded_safe c \<Longrightarrow> c \<noteq> CHR ''%'' \<and> c \<noteq> CHR ''+''"
  by (auto dest!: urlencoded_safe_codes simp: is_alnum_def)

lemma form_decode_encode:
  "percent_decode (plus_to_space (urlencoded_byte_serialize s)) = s"
proof (induction s)
  case Nil
  then show ?case by (simp add: plus_to_space_def)
next
  case (Cons c s)
  show ?case
  proof (cases "c = CHR '' ''")
    case True
    then show ?thesis
      using Cons by (simp add: urlencoded_byte_serialize_Cons plus_to_space_def percent_decode_Cons)
  next
    case sp: False
    show ?thesis
    proof (cases "urlencoded_safe c")
      case True
      with sp Cons safe_not_special [of c] show ?thesis
        by (simp add: urlencoded_byte_serialize_Cons percent_decode_Cons plus_to_space_def)
    next
      case False
      with sp Cons show ?thesis
        by (simp add: urlencoded_byte_serialize_Cons plus_to_space_byte percent_decode_byte)
    qed
  qed
qed

lemma serialize_pair_out:
  "x \<in> set (urlencoded_byte_serialize n @ CHR ''='' # urlencoded_byte_serialize v) \<Longrightarrow>
   x \<noteq> CHR ''&''"
  using form_out_not urlencoded_byte_serialize_out by fastforce

lemma parse_pair_serialize:
  "parse_pair (urlencoded_byte_serialize n @ CHR ''='' # urlencoded_byte_serialize v) = (n, v)"
proof -
  have "CHR ''='' \<notin> set (urlencoded_byte_serialize n)"
    using form_out_not urlencoded_byte_serialize_out by blast
  then show ?thesis
    by (simp add: parse_pair_split form_decode_encode)
qed

lemma parse_serialize: "parse_urlencoded (serialize_urlencoded ps) = ps"
proof (induction ps rule: serialize_urlencoded.induct)
  case 1
  then show ?case by simp
next
  case (2 n v)
  have "parse_urlencoded (urlencoded_byte_serialize n @ CHR ''='' # urlencoded_byte_serialize v) =
        [parse_pair (urlencoded_byte_serialize n @ CHR ''='' # urlencoded_byte_serialize v)]"
    using serialize_pair_out [of _ n v] by (intro parse_urlencoded_single) auto
  then show ?case by (simp add: parse_pair_serialize)
next
  case (3 n v p ps)
  let ?h = "urlencoded_byte_serialize n @ CHR ''='' # urlencoded_byte_serialize v"
  have single: "parse_urlencoded ?h = [parse_pair ?h]"
    using serialize_pair_out [of _ n v] by (intro parse_urlencoded_single) auto
  have "serialize_urlencoded ((n, v) # p # ps) = ?h @ CHR ''&'' # serialize_urlencoded (p # ps)"
    by simp
  then have "parse_urlencoded (serialize_urlencoded ((n, v) # p # ps)) =
             parse_urlencoded ?h @ parse_urlencoded (serialize_urlencoded (p # ps))"
    by (simp only: parse_urlencoded_append)
  with single 3 show ?case by (simp add: parse_pair_serialize)
qed

lemma serialize_out: "x \<in> set (serialize_urlencoded ps) \<Longrightarrow> \<not> query_set x \<and> \<not> is_tab_or_newline x"
proof (induction ps rule: serialize_urlencoded.induct)
  case 1
  then show ?case by simp
next
  case (2 n v)
  then show ?case
    using form_out_not urlencoded_byte_serialize_out
    by (auto simp: query_set_def c0_control_set_def is_tab_or_newline_def)
next
  case (3 n v p ps)
  then show ?case
    using form_out_not urlencoded_byte_serialize_out
    by (auto simp: query_set_def c0_control_set_def is_tab_or_newline_def)
qed

lemma serialize_Nil_iff: "serialize_urlencoded ps = [] \<longleftrightarrow> ps = []"
  by (induction ps rule: serialize_urlencoded.induct) auto

text \<open>The parser.\<close>

lemma origin_char_not:
  "origin_char c \<Longrightarrow> \<not> is_c0_or_space c \<and> \<not> is_tab_or_newline c \<and> c \<noteq> CHR ''#'' \<and> c \<noteq> CHR ''?''"
  by (auto simp: origin_char_def is_host_char_def is_alnum_def is_c0_or_space_def
      is_tab_or_newline_def code_def)

lemma valid_origin_chars:
  assumes "valid_origin org"
  shows "\<forall>c \<in> set org. origin_char c" and "org \<noteq> []" and "hd org = CHR ''h''"
    and "last org \<noteq> CHR ''/''"
proof -
  from assms consider
    (s) "take 8 org = ''https://''" "drop 8 org \<noteq> []" "list_all is_host_char (drop 8 org)" |
    (p) "take 7 org = ''http://''" "drop 7 org \<noteq> []" "list_all is_host_char (drop 7 org)"
    by (auto simp: valid_origin_def)
  then have "(\<forall>c \<in> set org. origin_char c) \<and> org \<noteq> [] \<and> hd org = CHR ''h'' \<and>
      last org \<noteq> CHR ''/''"
  proof cases
    case s
    have org: "org = ''https://'' @ drop 8 org"
      using s(1) append_take_drop_id [of 8 org] by simp
    have host: "\<forall>c \<in> set (drop 8 org). is_host_char c"
      using s(3) by (simp add: list_all_iff)
    have "last org = last (drop 8 org)"
      using s(2) by (subst org) simp
    moreover have "is_host_char (last (drop 8 org))"
      using host s(2) last_in_set by blast
    moreover have "\<not> is_host_char CHR ''/''"
      by (simp add: is_host_char_def is_alnum_def code_def)
    moreover have "\<forall>c \<in> set org. origin_char c"
      using host by (subst org) (auto simp: origin_char_def is_host_char_def is_alnum_def code_def)
    moreover have "hd org = CHR ''h''" by (subst org) simp
    ultimately show ?thesis using s(2) by auto
  next
    case p
    have org: "org = ''http://'' @ drop 7 org"
      using p(1) append_take_drop_id [of 7 org] by simp
    have host: "\<forall>c \<in> set (drop 7 org). is_host_char c"
      using p(3) by (simp add: list_all_iff)
    have "last org = last (drop 7 org)"
      using p(2) by (subst org) simp
    moreover have "is_host_char (last (drop 7 org))"
      using host p(2) last_in_set by blast
    moreover have "\<not> is_host_char CHR ''/''"
      by (simp add: is_host_char_def is_alnum_def code_def)
    moreover have "\<forall>c \<in> set org. origin_char c"
      using host by (subst org) (auto simp: origin_char_def is_host_char_def is_alnum_def code_def)
    moreover have "hd org = CHR ''h''" by (subst org) simp
    ultimately show ?thesis using p(2) by auto
  qed
  then show "\<forall>c \<in> set org. origin_char c" and "org \<noteq> []" and "hd org = CHR ''h''"
    and "last org \<noteq> CHR ''/''" by auto
qed

lemma url_origin_id: "valid_origin org \<Longrightarrow> url_origin org = org"
  using valid_origin_chars(4) [of org] by (simp add: url_origin_def)

lemma trim_input_id:
  assumes "s \<noteq> []" "\<not> is_c0_or_space (hd s)" "\<not> is_c0_or_space (last s)"
    and "\<forall>c \<in> set s. \<not> is_tab_or_newline c"
  shows "trim_input s = s"
proof -
  have a: "dropWhile is_c0_or_space s = s"
    using assms(1,2) by (cases s) auto
  have "rev s \<noteq> []" "\<not> is_c0_or_space (hd (rev s))"
    using assms(1,3) by (simp_all add: hd_rev)
  then have b: "dropWhile is_c0_or_space (rev s) = rev s"
    by (cases "rev s") auto
  show ?thesis
    using assms(4) by (simp add: trim_input_def a b)
qed

lemma not_c0_path: "\<not> path_set c \<Longrightarrow> \<not> is_c0_or_space c \<and> \<not> is_tab_or_newline c \<and> c \<noteq> CHR ''#'' \<and> c \<noteq> CHR ''?''"
  by (auto simp: path_set_def c0_control_set_def is_c0_or_space_def is_tab_or_newline_def)

lemma not_c0_query: "\<not> query_set c \<Longrightarrow> \<not> is_c0_or_space c \<and> \<not> is_tab_or_newline c \<and> c \<noteq> CHR ''#''"
  by (auto simp: query_set_def c0_control_set_def is_c0_or_space_def is_tab_or_newline_def)

lemma not_c0_fragment: "\<not> fragment_set c \<Longrightarrow> \<not> is_c0_or_space c \<and> \<not> is_tab_or_newline c"
  by (auto simp: fragment_set_def c0_control_set_def is_c0_or_space_def is_tab_or_newline_def)

lemma special_not_c0:
  "\<not> is_c0_or_space CHR ''?''" "\<not> is_c0_or_space CHR ''#''" "\<not> is_c0_or_space CHR ''/''"
  "\<not> is_tab_or_newline CHR ''?''" "\<not> is_tab_or_newline CHR ''#''"
  "\<not> is_c0_or_space CHR ''h''"
  by (simp_all add: is_c0_or_space_def is_tab_or_newline_def code_def)

lemma tail_text_parts:
  assumes "\<forall>c \<in> set p. \<not> path_set c"
    and "\<forall>x. q = Some x \<longrightarrow> (\<forall>c \<in> set x. \<not> query_set c)"
  shows "before CHR ''#'' (tail_text p q f) = p @ (case q of None \<Rightarrow> [] | Some x \<Rightarrow> CHR ''?'' # x)"
    and "after CHR ''#'' (tail_text p q f) = f"
    and "before CHR ''?'' (p @ (case q of None \<Rightarrow> [] | Some x \<Rightarrow> CHR ''?'' # x)) = p"
    and "after CHR ''?'' (p @ (case q of None \<Rightarrow> [] | Some x \<Rightarrow> CHR ''?'' # x)) = q"
proof -
  let ?front = "p @ (case q of None \<Rightarrow> [] | Some x \<Rightarrow> CHR ''?'' # x)"
  have p1: "CHR ''#'' \<notin> set p" "CHR ''?'' \<notin> set p"
    using assms(1) not_c0_path by blast+
  have q1: "CHR ''#'' \<notin> set ?front"
    using p1 assms(2) not_c0_query by (cases q) auto
  have tt: "\<And>g. tail_text p q g = ?front @ (case g of None \<Rightarrow> [] | Some x \<Rightarrow> CHR ''#'' # x)"
    by (simp add: tail_text_def)
  show "before CHR ''#'' (tail_text p q f) = ?front"
    by (cases f)
      (simp_all only: tt option.case append_Nil2 before_none [OF q1] before_split [OF q1])
  show "after CHR ''#'' (tail_text p q f) = f"
    by (cases f)
      (simp_all only: tt option.case append_Nil2 after_none [OF q1] after_split [OF q1])
  show "before CHR ''?'' ?front = p"
    using p1 by (cases q) (simp_all add: before_none before_split)
  show "after CHR ''?'' ?front = q"
    using p1 by (cases q) (simp_all add: after_none after_split)
qed

lemma tail_text_ends:
  assumes "p \<noteq> []" "hd p = CHR ''/''" "\<forall>c \<in> set p. \<not> path_set c"
    and "\<forall>x. q = Some x \<longrightarrow> (\<forall>c \<in> set x. \<not> query_set c)"
    and "\<forall>x. f = Some x \<longrightarrow> (\<forall>c \<in> set x. \<not> fragment_set c)"
  shows "tail_text p q f \<noteq> []" and "hd (tail_text p q f) = CHR ''/''"
    and "\<not> is_c0_or_space (last (tail_text p q f))"
    and "\<forall>c \<in> set (tail_text p q f). \<not> is_tab_or_newline c"
proof -
  show "tail_text p q f \<noteq> []" using assms(1) by (simp add: tail_text_def)
  show "hd (tail_text p q f) = CHR ''/''" using assms(1,2) by (simp add: tail_text_def)
  have all: "\<forall>c \<in> set (tail_text p q f). \<not> is_c0_or_space c \<and> \<not> is_tab_or_newline c"
    using assms(3,4,5) not_c0_path not_c0_query not_c0_fragment special_not_c0
    by (cases q; cases f) (auto simp: tail_text_def)
  then show "\<forall>c \<in> set (tail_text p q f). \<not> is_tab_or_newline c" by blast
  have "last (tail_text p q f) \<in> set (tail_text p q f)"
    using assms(1) by (intro last_in_set) (simp add: tail_text_def)
  with all show "\<not> is_c0_or_space (last (tail_text p q f))" by blast
qed

lemma new_URL_tail:
  assumes "valid_origin (url_origin base)"
    and "p \<noteq> []" "hd p = CHR ''/''" "\<forall>c \<in> set p. \<not> path_set c"
    and "\<forall>x. q = Some x \<longrightarrow> (\<forall>c \<in> set x. \<not> query_set c)"
    and "\<forall>x. f = Some x \<longrightarrow> (\<forall>c \<in> set x. \<not> fragment_set c)"
    and "input = tail_text p q f \<or> input = url_origin base @ tail_text p q f"
  shows "new_URL input base =
           \<lparr>origin = url_origin base, pathname = p, query = q, fragment = f\<rparr>"
proof -
  let ?org = "url_origin base"
  let ?t = "tail_text p q f"
  note ends = tail_text_ends [OF assms(2-6)]
  note org = valid_origin_chars [OF assms(1)]
  have trim: "trim_input input = input"
  proof (rule trim_input_id)
    show "input \<noteq> []" using assms(7) ends(1) by auto
    show "\<not> is_c0_or_space (hd input)"
      using assms(7) ends(1,2) org(2,3) special_not_c0 by auto
    show "\<not> is_c0_or_space (last input)"
      using assms(7) ends(1,3) by auto
    show "\<forall>c \<in> set input. \<not> is_tab_or_newline c"
      using assms(7) ends(4) org(1) origin_char_not by auto
  qed
  have strip: "strip_origin ?org input = ?t"
  proof (cases "input = ?t")
    case True
    have "take (length ?org) ?t \<noteq> ?org"
    proof
      assume "take (length ?org) ?t = ?org"
      then have "hd ?org = hd ?t"
        using org(2) ends(1) by (metis hd_take length_greater_0_conv)
      then show False using ends(2) org(3) by simp
    qed
    with True show ?thesis by (simp add: strip_origin_def Let_def)
  next
    case False
    then have "input = ?org @ ?t" using assms(7) by simp
    then show ?thesis using ends(1,2) by (simp add: strip_origin_def Let_def)
  qed
  note parts = tail_text_parts [OF assms(4,5)]
  have pe: "percent_encode path_set p = p"
    using assms(4) by (rule percent_encode_id)
  have qe: "map_option (percent_encode query_set) q = q"
    using assms(5) by (cases q) (simp_all add: percent_encode_id)
  have fe: "map_option (percent_encode fragment_set) f = f"
    using assms(6) by (cases f) (simp_all add: percent_encode_id)
  show ?thesis
    using assms(2,3) by (simp add: new_URL_def Let_def trim strip parts pe qe fe)
qed

lemma href_tail: "href u = origin u @ tail_text (pathname u) (query u) (fragment u)"
  by (simp add: href_def tail_text_def)

lemma new_URL_href:
  assumes "clean_url u" and "url_origin b = origin u"
  shows "new_URL (href u) b = u"
proof -
  have "new_URL (href u) b =
          \<lparr>origin = url_origin b, pathname = pathname u, query = query u, fragment = fragment u\<rparr>"
    using assms by (intro new_URL_tail) (auto simp: clean_url_def href_tail)
  then show ?thesis using assms(2) by simp
qed

lemma query_encode_clean: "\<forall>c \<in> set (query_encode v). \<not> query_set c"
  unfolding query_encode_def
  using percent_encode_set [of _ query_set] enc_out_not_sets by blast

lemma percent_encode_hd:
  "s \<noteq> [] \<Longrightarrow> \<not> P (hd s) \<Longrightarrow> percent_encode P s \<noteq> [] \<and> hd (percent_encode P s) = hd s"
  by (cases s) (auto simp: percent_encode_Cons)

lemma new_URL_clean:
  assumes "valid_base base"
  shows "clean_url (new_URL input base)"
proof -
  define rel where "rel = strip_origin (url_origin base) (trim_input input)"
  define path where "path = before CHR ''?'' (before CHR ''#'' rel)"
  define p where "p = (if path \<noteq> [] \<and> hd path = CHR ''/'' then path else CHR ''/'' # path)"
  define q where "q = map_option (percent_encode query_set) (after CHR ''?'' (before CHR ''#'' rel))"
  define f where "f = map_option (percent_encode fragment_set) (after CHR ''#'' rel)"
  have u: "new_URL input base =
      \<lparr>origin = url_origin base, pathname = percent_encode path_set p, query = q, fragment = f\<rparr>"
    by (simp add: new_URL_def Let_def rel_def path_def p_def q_def f_def)
  have slash: "\<not> path_set CHR ''/''"
    by (simp add: path_set_def c0_control_set_def)
  have "p \<noteq> []" "hd p = CHR ''/''" by (simp_all add: p_def)
  then have hd: "percent_encode path_set p \<noteq> [] \<and> hd (percent_encode path_set p) = CHR ''/''"
    using percent_encode_hd [of p path_set] slash by simp
  have cp: "\<forall>c \<in> set (percent_encode path_set p). \<not> path_set c"
    using percent_encode_set [of _ path_set] enc_out_not_sets by blast
  have cq: "\<forall>x. q = Some x \<longrightarrow> (\<forall>c \<in> set x. \<not> query_set c)"
    unfolding q_def using percent_encode_set [of _ query_set] enc_out_not_sets by blast
  have cf: "\<forall>x. f = Some x \<longrightarrow> (\<forall>c \<in> set x. \<not> fragment_set c)"
    unfolding f_def using percent_encode_set [of _ fragment_set] enc_out_not_sets by blast
  have "valid_origin (url_origin base)"
    using assms by (simp add: valid_base_def)
  with hd cp cq cf show ?thesis
    unfolding u clean_url_def by simp
qed

lemma new_URL_origin [simp]: "origin (new_URL input base) = url_origin base"
  by (simp add: new_URL_def Let_def)

lemma set_search_clean: "clean_url u \<Longrightarrow> clean_url (set_search u v)"
  using query_encode_clean by (auto simp: clean_url_def set_search_def)

lemma set_search_fields [simp]:
  "origin (set_search u v) = origin u" "pathname (set_search u v) = pathname u"
  by (simp_all add: set_search_def)

lemma updateProductUrl_eq:
  assumes "valid_base base"
  shows "updateProductUrl s base q =
           (let u = new_URL s base
            in pathname u @
               search (set_search u
                         (if search u \<noteq> [] then search u @ ''&'' @ q else search u @ q)))"
proof -
  let ?u = "new_URL s base"
  have reparse: "new_URL (href (set_search ?u v)) (url_origin base) = set_search ?u v" for v
  proof -
    have c: "clean_url (set_search ?u v)"
      using new_URL_clean [OF assms] by (rule set_search_clean)
    then have o: "valid_origin (origin (set_search ?u v))"
      by (simp add: clean_url_def)
    show ?thesis
      using new_URL_href [OF c url_origin_id [OF o]] by simp
  qed
  show ?thesis
    by (cases "search ?u = []") (simp_all add: updateProductUrl_def Let_def reparse)
qed

lemma query_encode_append: "query_encode (a @ b) = query_encode a @ query_encode b"
  by (simp add: query_encode_def)

lemma query_encode_id: "\<forall>c \<in> set s. \<not> query_set c \<Longrightarrow> query_encode s = s"
proof -
  assume a: "\<forall>c \<in> set s. \<not> query_set c"
  then have "filter (\<lambda>c. \<not> is_tab_or_newline c) s = s"
    using not_c0_query by (intro filter_True) blast
  with a show ?thesis by (simp add: query_encode_def percent_encode_id)
qed

lemma query_encode_amp: "query_encode (CHR ''&'' # s) = CHR ''&'' # query_encode s"
  by (simp add: query_encode_def is_tab_or_newline_def query_set_def c0_control_set_def
      percent_encode_Cons)

lemma query_encode_eq: "query_encode (CHR ''='' # s) = CHR ''='' # query_encode s"
  by (simp add: query_encode_def is_tab_or_newline_def query_set_def c0_control_set_def
      percent_encode_Cons code_def)

lemma search_cases:
  obtains (none) "search u = []" "searchParams u = []"
  | (some) q0 where "query u = Some q0" "q0 \<noteq> []" "search u = CHR ''?'' # q0"
proof (cases "query u")
  case None
  then show ?thesis using none by (simp add: search_def searchParams_def)
next
  case (Some q0)
  then show ?thesis
    using none some by (cases "q0 = []") (simp_all add: search_def searchParams_def)
qed

lemma search_append:
  assumes "clean_url u"
  shows "search (set_search u (if search u \<noteq> [] then search u @ ''&'' @ q else search u @ q)) =
           (if search u \<noteq> [] then search u @ ''&'' @ query_encode q
            else let e = query_encode (strip_question q) in if e = [] then [] else CHR ''?'' # e)"
proof (cases u rule: search_cases)
  case none
  then show ?thesis
    by (cases "q = []")
      (simp_all add: set_search_def search_def Let_def query_encode_def strip_question_def)
next
  case (some q0)
  have "\<forall>c \<in> set q0. \<not> query_set c"
    using assms some(1) by (simp add: clean_url_def)
  then have "query_encode (q0 @ CHR ''&'' # q) = q0 @ CHR ''&'' # query_encode q"
    by (simp add: query_encode_append query_encode_id query_encode_amp)
  then show ?thesis
    using some by (simp add: set_search_def search_def strip_question_def)
qed

lemma updateProductUrl_appended:
  assumes "valid_base base"
  shows "updateProductUrl url base q = appended (new_URL url base) q"
  using search_append [OF new_URL_clean [OF assms], of url q]
  by (simp add: updateProductUrl_eq [OF assms] appended_def Let_def)

text \<open>Query parameters after the swatch callback.\<close>

lemma alnum_not:
  "is_alnum c \<Longrightarrow> \<not> query_set c \<and> \<not> is_tab_or_newline c \<and> c \<noteq> CHR ''%'' \<and> c \<noteq> CHR ''+'' \<and>
     c \<noteq> CHR ''='' \<and> c \<noteq> CHR ''&'' \<and> c \<noteq> CHR ''?''"
  by (auto simp: is_alnum_def query_set_def c0_control_set_def is_tab_or_newline_def)

lemma percent_decode_id: "CHR ''%'' \<notin> set s \<Longrightarrow> percent_decode s = s"
  by (induction s) (auto simp: percent_decode_Cons)

lemma safe_name_facts:
  assumes "safe_name d"
  shows "query_encode d = d" "strip_question (d @ r) = d @ r" "CHR ''='' \<notin> set d"
    "CHR ''&'' \<notin> set d" "percent_decode (plus_to_space d) = d" "d \<noteq> []"
proof -
  have a: "\<forall>c \<in> set d. is_alnum c" and ne: "d \<noteq> []"
    using assms by (simp_all add: safe_name_def)
  show "query_encode d = d"
    using a alnum_not by (intro query_encode_id) blast
  have "hd d \<in> set d" using ne by simp
  then have "hd d \<noteq> CHR ''?''" using a alnum_not by blast
  then show "strip_question (d @ r) = d @ r"
    using ne by (cases d) (simp_all add: strip_question_def)
  show "CHR ''='' \<notin> set d" "CHR ''&'' \<notin> set d" using a alnum_not by blast+
  have "CHR ''+'' \<notin> set d" "CHR ''%'' \<notin> set d" using a alnum_not by blast+
  then show "percent_decode (plus_to_space d) = d"
    by (simp add: plus_to_space_id percent_decode_id)
  show "d \<noteq> []" by (rule ne)
qed

lemma plain_value_facts:
  assumes "plain_value v"
  shows "CHR ''&'' \<notin> set (query_encode v)"
    and "percent_decode (plus_to_space (query_encode v)) = v"
proof -
  have f: "filter (\<lambda>c. \<not> is_tab_or_newline c) v = v"
    using assms by (intro filter_True) (simp add: plain_value_def)
  then have qe: "query_encode v = percent_encode query_set v"
    by (simp add: query_encode_def)
  have out: "\<And>x. x \<in> set (query_encode v) \<Longrightarrow> x \<in> set v \<or> enc_out x"
    unfolding qe using percent_encode_set by blast
  have v1: "CHR ''&'' \<notin> set v" "CHR ''+'' \<notin> set v" "CHR ''%'' \<notin> set v"
    using assms by (auto simp: plain_value_def)
  show "CHR ''&'' \<notin> set (query_encode v)"
    using out [of "CHR ''&''"] v1(1) enc_out_not_sets [of "CHR ''&''"] by blast
  have "CHR ''+'' \<notin> set (query_encode v)"
    using out [of "CHR ''+''"] v1(2) enc_out_not_sets [of "CHR ''+''"] by blast
  then have "plus_to_space (query_encode v) = query_encode v"
    by (rule plus_to_space_id)
  then show "percent_decode (plus_to_space (query_encode v)) = v"
    using v1(3) by (simp add: qe percent_decode_encode)
qed

lemma parse_pair_named:
  assumes "safe_name d" "plain_value v"
  shows "parse_urlencoded (d @ CHR ''='' # query_encode v) = [(d, v)]"
proof -
  have "CHR ''&'' \<notin> set (d @ CHR ''='' # query_encode v)"
    using safe_name_facts(4) [OF assms(1)] plain_value_facts(1) [OF assms(2)] by simp
  then have "parse_urlencoded (d @ CHR ''='' # query_encode v) =
             [parse_pair (d @ CHR ''='' # query_encode v)]"
    by (intro parse_urlencoded_single) simp_all
  then show ?thesis
    using safe_name_facts(3,5) [OF assms(1)] plain_value_facts(2) [OF assms(2)]
    by (simp add: parse_pair_split)
qed

lemma searchParams_query: "query u = Some q \<Longrightarrow> searchParams u = parse_urlencoded q"
  by (simp add: searchParams_def)

lemma searchParams_none: "query u = None \<Longrightarrow> searchParams u = []"
  by (simp add: searchParams_def)

lemma params_appended:
  assumes "valid_base base" and "clean_url w" and "origin w = url_origin base"
    and "safe_name d" and "plain_value v"
  shows "searchParams (new_URL (appended w (d @ ''='' @ v)) base) = searchParams w @ [(d, v)]"
proof -
  note sn = safe_name_facts [OF assms(4)]
  let ?pair = "d @ CHR ''='' # query_encode v"
  have qe: "query_encode (d @ CHR ''='' # v) = ?pair"
    by (simp add: query_encode_append sn(1) query_encode_eq)
  have cpair: "\<forall>c \<in> set ?pair. \<not> query_set c"
    using query_encode_clean [of "d @ CHR ''='' # v"] by (simp only: qe)
  have vo: "valid_origin (url_origin base)"
    using assms(1) by (simp add: valid_base_def)
  have pw: "pathname w \<noteq> []" "hd (pathname w) = CHR ''/''" "\<forall>c \<in> set (pathname w). \<not> path_set c"
    using assms(2) by (simp_all add: clean_url_def)
  have parse_q: "searchParams (new_URL (pathname w @ CHR ''?'' # Q) base) = parse_urlencoded Q"
    if cl: "\<forall>c \<in> set Q. \<not> query_set c" for Q
  proof -
    have tt: "pathname w @ CHR ''?'' # Q = tail_text (pathname w) (Some Q) None"
      by (simp add: tail_text_def)
    have "new_URL (pathname w @ CHR ''?'' # Q) base =
            \<lparr>origin = url_origin base, pathname = pathname w, query = Some Q, fragment = None\<rparr>"
    proof (rule new_URL_tail [OF vo pw])
      show "\<forall>x. Some Q = Some x \<longrightarrow> (\<forall>c \<in> set x. \<not> query_set c)" using cl by simp
      show "\<forall>x. None = Some x \<longrightarrow> (\<forall>c \<in> set x. \<not> fragment_set c)" by simp
      show "pathname w @ CHR ''?'' # Q = tail_text (pathname w) (Some Q) None \<or>
            pathname w @ CHR ''?'' # Q = url_origin base @ tail_text (pathname w) (Some Q) None"
        using tt by simp
    qed
    then show ?thesis by (simp add: searchParams_def)
  qed
  show ?thesis
  proof (cases w rule: search_cases)
    case none
    have "strip_question (d @ CHR ''='' # v) = d @ CHR ''='' # v"
      by (rule sn(2))
    then have "appended w (d @ ''='' @ v) = pathname w @ CHR ''?'' # ?pair"
      using none(1) qe sn(6) by (simp add: appended_def Let_def)
    then have "searchParams (new_URL (appended w (d @ ''='' @ v)) base) = parse_urlencoded ?pair"
      using parse_q [OF cpair] by simp
    then show ?thesis
      using none(2) parse_pair_named [OF assms(4,5)] by simp
  next
    case (some q0)
    have cq0: "\<forall>c \<in> set q0. \<not> query_set c"
      using assms(2) some(1) by (simp add: clean_url_def)
    have amp: "\<not> query_set CHR ''&''"
      by (simp add: query_set_def c0_control_set_def)
    have call: "\<forall>c \<in> set (q0 @ CHR ''&'' # ?pair). \<not> query_set c"
      using cq0 cpair amp by (simp add: ball_Un)
    have "appended w (d @ ''='' @ v) = pathname w @ CHR ''?'' # (q0 @ CHR ''&'' # ?pair)"
      using some(3) qe by (simp add: appended_def)
    then have "searchParams (new_URL (appended w (d @ ''='' @ v)) base) =
        parse_urlencoded (q0 @ CHR ''&'' # ?pair)"
      using parse_q [OF call] by simp
    also have "\<dots> = parse_urlencoded q0 @ [(d, v)]"
      by (simp only: parse_urlencoded_append parse_pair_named [OF assms(4,5)])
    finally show ?thesis using searchParams_query [OF some(1)] by simp
  qed
qed

lemma searchParams_delete_query:
  "query (searchParams_delete u name) =
     (let s = serialize_urlencoded (filter (\<lambda>p. fst p \<noteq> name) (searchParams u))
      in if s = [] then None else Some s)"
  and searchParams_delete_fields:
  "origin (searchParams_delete u name) = origin u"
  "pathname (searchParams_delete u name) = pathname u"
  "fragment (searchParams_delete u name) = fragment u"
  by (simp_all add: searchParams_delete_def Let_def)

lemma searchParams_delete_clean:
  assumes "clean_url u"
  shows "clean_url (searchParams_delete u name)"
proof -
  let ?ps = "filter (\<lambda>p. fst p \<noteq> name) (searchParams u)"
  have "\<forall>c \<in> set (serialize_urlencoded ?ps). \<not> query_set c"
    using serialize_out [of _ ?ps] by blast
  then have "\<forall>q. query (searchParams_delete u name) = Some q \<longrightarrow> (\<forall>c \<in> set q. \<not> query_set c)"
    by (simp add: searchParams_delete_query Let_def)
  with assms show ?thesis
    unfolding clean_url_def by (simp only: searchParams_delete_fields) blast
qed

lemma searchParams_delete_params:
  "searchParams (searchParams_delete u name) = filter (\<lambda>p. fst p \<noteq> name) (searchParams u)"
proof -
  let ?ps = "filter (\<lambda>p. fst p \<noteq> name) (searchParams u)"
  show ?thesis
  proof (cases "serialize_urlencoded ?ps = []")
    case True
    then have e: "?ps = []" by (simp only: serialize_Nil_iff)
    have "query (searchParams_delete u name) = None"
      using True by (simp add: searchParams_delete_query Let_def)
    then show ?thesis using e by (simp only: searchParams_none)
  next
    case False
    then have "query (searchParams_delete u name) = Some (serialize_urlencoded ?ps)"
      by (simp add: searchParams_delete_query Let_def)
    then show ?thesis
      by (simp only: searchParams_query parse_serialize)
  qed
qed

lemma updatePageAndImageUrl_page:
  "productPageUrl (updatePageAndImageUrl fw props st sw) =
     (if isNullOrWhitespace (swatch_value sw) then productPageUrl st
      else if str_includes (productPageUrl st) (dimensionType sw)
      then updateProductUrl
             (href (searchParams_delete (new_URL (productPageUrl st) (baseUrl props))
                      (dimensionType sw)))
             (baseUrl props) (dimensionType sw @ ''='' @ swatch_value sw)
      else updateProductUrl (productPageUrl st) (baseUrl props)
             (dimensionType sw @ ''='' @ swatch_value sw))"
  by (simp add: updatePageAndImageUrl_def Let_def)

lemma swatch_url_params:
  assumes "valid_base (baseUrl props)" and "safe_name (dimensionType sw)"
    and "\<not> isNullOrWhitespace (swatch_value sw)" and "plain_value (swatch_value sw)"
  shows "searchParams (new_URL (productPageUrl (updatePageAndImageUrl fw props st sw))
                        (baseUrl props)) =
         (if str_includes (productPageUrl st) (dimensionType sw)
          then filter (\<lambda>p. fst p \<noteq> dimensionType sw)
                 (searchParams (new_URL (productPageUrl st) (baseUrl props)))
          else searchParams (new_URL (productPageUrl st) (baseUrl props))) @
         [(dimensionType sw, swatch_value sw)]"
proof -
  let ?b = "baseUrl props"
  let ?u = "new_URL (productPageUrl st) ?b"
  let ?d = "dimensionType sw"
  let ?q = "?d @ ''='' @ swatch_value sw"
  note cu = new_URL_clean [OF assms(1), of "productPageUrl st"]
  have ou: "origin ?u = url_origin ?b" by (rule new_URL_origin)
  show ?thesis
  proof (cases "str_includes (productPageUrl st) ?d")
    case True
    let ?w = "searchParams_delete ?u ?d"
    have cw: "clean_url ?w" using cu by (rule searchParams_delete_clean)
    have ow: "origin ?w = url_origin ?b"
      by (simp only: searchParams_delete_fields ou)
    have "productPageUrl (updatePageAndImageUrl fw props st sw) =
            updateProductUrl (href ?w) ?b ?q"
      using True assms(3) by (simp only: updatePageAndImageUrl_page if_True if_False)
    also have "\<dots> = appended (new_URL (href ?w) ?b) ?q"
      using assms(1) by (rule updateProductUrl_appended)
    also have "new_URL (href ?w) ?b = ?w"
      using cw ow [symmetric] by (rule new_URL_href)
    finally have "productPageUrl (updatePageAndImageUrl fw props st sw) = appended ?w ?q" .
    then have "searchParams (new_URL (productPageUrl (updatePageAndImageUrl fw props st sw)) ?b) =
       searchParams ?w @ [(?d, swatch_value sw)]"
      using params_appended [OF assms(1) cw ow assms(2,4)] by (simp only:)
    then show ?thesis
      using True by (simp only: searchParams_delete_params if_True)
  next
    case False
    have "productPageUrl (updatePageAndImageUrl fw props st sw) =
            updateProductUrl (productPageUrl st) ?b ?q"
      using False assms(3) by (simp only: updatePageAndImageUrl_page if_True if_False)
    also have "\<dots> = appended ?u ?q"
      using assms(1) by (rule updateProductUrl_appended)
    finally have "productPageUrl (updatePageAndImageUrl fw props st sw) = appended ?u ?q" .
    then have "searchParams (new_URL (productPageUrl (updatePageAndImageUrl fw props st sw)) ?b) =
       searchParams ?u @ [(?d, swatch_value sw)]"
      using params_appended [OF assms(1) cu ou assms(2,4)] by (simp only:)
    then show ?thesis
      using False by (simp only: if_False)
  qed
qed

lemma dimension_types_safe:
  "d \<in> set [DimensionTypes_none, DimensionTypes_color, DimensionTypes_configuration,
             DimensionTypes_size, DimensionTypes_style] \<Longrightarrow> safe_name d"
  by (auto simp: safe_name_def is_alnum_def code_def DimensionTypes_none_def
      DimensionTypes_color_def DimensionTypes_configuration_def DimensionTypes_size_def
      DimensionTypes_style_def)

lemma getAll_append: "getAll n (a @ b) = getAll n a @ getAll n b"
  by (simp add: getAll_def)

lemma getAll_filter_other: "n \<noteq> d \<Longrightarrow> getAll n (filter (\<lambda>p. fst p \<noteq> d) ps) = getAll n ps"
  by (induction ps) (auto simp: getAll_def)

lemma getAll_filter_same: "getAll d (filter (\<lambda>p. fst p \<noteq> d) ps) = []"
  by (induction ps) (auto simp: getAll_def)

subsection \<open>Sub-renderers\<close>

text \<open>
  C1, as the code has it. The sub-renderers for the unit of measure, the availability label
  and the rating return null when their input is absent or empty (for the rating: absent,
  zero or NaN). The description and price sub-renderers have no such guard: they return
  an element for every input, an empty paragraph for an absent description. All five are
  functions of their arguments and the props, and write nothing.
\<close>

theorem sub_renderers_null:
  "(uom = None \<or> uom = Some [] \<longrightarrow> renderProductUnitOfMeasure uom = None) \<and>
   (label = None \<or> label = Some [] \<longrightarrow> renderProductAvailability label = None) \<and>
   (avg = None \<or> avg = Some NaN \<or> avg = Some (Num 0) \<longrightarrow>
      renderRating fw props avg totalRatings aria = None) \<and>
   renderDescription d \<noteq> None \<and>
   renderPrice props b a mx mn t1 t2 t3 t4 \<noteq> None"
  by (auto simp: renderProductUnitOfMeasure_def renderProductAvailability_def
      renderRating_def renderDescription_def renderPrice_def Let_def)

theorem sub_renderers_null_witness:
  "renderProductUnitOfMeasure (Some []) = None \<and>
   renderProductAvailability None = None \<and>
   renderRating example_framework (example_props None) (Some NaN) None None = None \<and>
   renderDescription (Some []) \<noteq> None \<and>
   renderPrice (example_props None) None None None None None None None None \<noteq> None"
  using sub_renderers_null [where uom = "Some []" and label = None and avg = "Some NaN"
      and fw = example_framework and props = "example_props None" and totalRatings = None
      and aria = None and d = "Some []" and b = None and a = None and mx = None
      and mn = None and ?t1.0 = None and ?t2.0 = None and ?t3.0 = None and ?t4.0 = None]
  by simp

text \<open>
  C1 as stated fails for the description: with no description the sub-renderer still
  returns an element.
\<close>

theorem renderDescription_counterexample:
  "renderDescription None = Some (Tag ''p'' ''msc-product__text'' []) \<and>
   renderDescription None \<noteq> None"
  by (simp add: renderDescription_def)

text \<open>
  C9. When the product's average rating is zero or absent, renderRating returns null:
  no rating element is rendered.
\<close>

theorem renderRating_null:
  "avgRating = None \<or> avgRating = Some (Num 0) \<Longrightarrow>
   renderRating fw props avgRating totalRatings ariaLabel = None"
  by (auto simp: renderRating_def)

theorem renderRating_null_witness:
  "renderRating example_framework (example_props None) (Some (Num 0)) (Some (Num 12))
     (Some ''rating '') = None \<and>
   renderRating example_framework (example_props None) None None None = None"
  using renderRating_null [of "Some (Num 0)" example_framework "example_props None"
      "Some (Num 12)" "Some ''rating ''"]
    renderRating_null [of None example_framework "example_props None" None None]
  by simp

text \<open>
  C8. getRatingAriaLabel returns a non-empty text only when the rating is a non-zero number
  and the label template is present and not empty, and then it is the template formatted
  with the rating fixed to two decimals; getReviewAriaLabel returns a non-empty text only
  when the review count is a non-zero number and its template is present and not empty. In
  every other case each returns the empty string; a review count with no template gives
  the empty string.
\<close>

theorem aria_labels_empty:
  "(getRatingAriaLabel fw rating t \<noteq> [] \<longrightarrow>
      (\<exists>r. rating = Some (Num r) \<and> r \<noteq> 0) \<and> (\<exists>s. t = Some s \<and> s \<noteq> [])) \<and>
   (getReviewAriaLabel fw reviewCount t' \<noteq> [] \<longrightarrow>
      (\<exists>r. reviewCount = Some (Num r) \<and> r \<noteq> 0) \<and> (\<exists>s. t' = Some s \<and> s \<noteq> [])) \<and>
   (rating = Some (Num r) \<and> r \<noteq> 0 \<and> t = Some s \<and> s \<noteq> [] \<longrightarrow>
      getRatingAriaLabel fw rating t = format fw s [toFixed2 fw (Num r), ''5'']) \<and>
   (reviewCount = Some (Num n) \<and> n \<noteq> 0 \<and> t' = Some s' \<and> s' \<noteq> [] \<longrightarrow>
      getReviewAriaLabel fw reviewCount t' = format fw s' [numberToString fw (Num n)]) \<and>
   getReviewAriaLabel fw reviewCount None = []"
  apply (cases rating; cases t; cases reviewCount; cases t')
  apply (auto simp: getRatingAriaLabel_def getReviewAriaLabel_def Let_def
      elim: truthy_number.elims)
  done

theorem aria_labels_empty_witness:
  "getRatingAriaLabel example_framework (Some (Num 4.5)) (Some ''rating '') \<noteq> [] \<and>
   getRatingAriaLabel example_framework (Some (Num 4.5)) (Some ''rating '') = ''rating 4.505'' \<and>
   getReviewAriaLabel example_framework (Some (Num 12)) (Some ''reviews '') \<noteq> [] \<and>
   getReviewAriaLabel example_framework (Some (Num 12)) (Some ''reviews '') = ''reviews 12'' \<and>
   getReviewAriaLabel example_framework (Some (Num 12)) None = []"
  using aria_labels_empty [where fw = example_framework and rating = "Some (Num 4.5)"
      and t = "Some ''rating ''" and reviewCount = "Some (Num 12)" and t' = "Some ''reviews ''"
      and r = "4.5" and s = "''rating ''" and n = "12" and s' = "''reviews ''"]
    aria_labels_empty [where fw = example_framework and reviewCount = "Some (Num 12)"]
  by (simp add: example_framework_def)

subsection \<open>The component without a product\<close>

text \<open>
  C7. When the product input is absent, the product card renders nothing: the render is
  null, for every configuration and every state, and so is the first render.
\<close>

theorem ProductCard_absent:
  "product props = None \<Longrightarrow> ProductCard fw props st = None \<and> mount fw props = None"
  by (simp add: ProductCard_def mount_def)

theorem ProductCard_absent_witness:
  "product (example_props None) = None \<and>
   ProductCard example_framework (example_props None) (example_state ''/shirt/1.p'') = None \<and>
   mount example_framework (example_props None) = None"
  using ProductCard_absent [of "example_props None" example_framework
      "example_state ''/shirt/1.p''"]
  by (simp add: example_props_def)

subsection \<open>The image shown\<close>

text \<open>
  C6. A swatch selection whose dimension type is not colour leaves the displayed product
  image URL as it was. A colour selection with a non-blank value recomputes it from the
  first of the selected swatch's product image URLs.
\<close>

theorem image_unchanged:
  "(dimensionType sw \<noteq> DimensionTypes_color \<longrightarrow>
      productImageUrl (updatePageAndImageUrl fw props st sw) = productImageUrl st) \<and>
   (dimensionType sw = DimensionTypes_color \<and> \<not> isNullOrWhitespace (swatch_value sw) \<longrightarrow>
      productImageUrl (updatePageAndImageUrl fw props st sw) =
        generateImageUrl fw (first_element (productImageUrls sw)))"
  apply (cases "productImageUrls sw")
   apply (auto simp: updatePageAndImageUrl_def Let_def)
  done

theorem image_unchanged_witness:
  "dimensionType (example_swatch ''size'' ''M'') \<noteq> DimensionTypes_color \<and>
   productImageUrl (updatePageAndImageUrl example_framework (example_props None)
       (example_state ''/shirt/1.p'') (example_swatch ''size'' ''M'')) = Some ''/primary.png'' \<and>
   dimensionType (example_swatch ''color'' ''red'') = DimensionTypes_color \<and>
   \<not> isNullOrWhitespace (swatch_value (example_swatch ''color'' ''red'')) \<and>
   productImageUrl (updatePageAndImageUrl example_framework (example_props None)
       (example_state ''/shirt/1.p'') (example_swatch ''color'' ''red'')) = Some ''/img/sel.png''"
  using image_unchanged [of "example_swatch ''size'' ''M''" example_framework
      "example_props None" "example_state ''/shirt/1.p''"]
    image_unchanged [of "example_swatch ''color'' ''red''" example_framework
      "example_props None" "example_state ''/shirt/1.p''"]
  by (simp add: example_swatch_def example_state_def example_framework_def
      DimensionTypes_color_def isNullOrWhitespace_def is_space_def)

text \<open>
  C3, as the code has it. With pre-selection off, or when the product's first colour
  attribute has no swatches, the initial image is the product's primary image URL. With
  pre-selection on and colour swatches present, the swatch chosen is the first one flagged
  default, or the first swatch when none is flagged; the initial image is generated from
  the first of that swatch's product image URLs, and is the primary image URL when that
  swatch has no product image URLs or the generator returns nothing.
\<close>

theorem initial_image_from_default_swatch:
  "(dimensionToPreSelectInProductCard (config props) = DimensionTypes_none \<longrightarrow>
      productImageUrl (initial_state fw props) = primaryImageUrl (product props)) \<and>
   (\<not> (\<exists>p avs a s ss. product props = Some p \<and> AttributeValues p = Some avs \<and>
          find_first (\<lambda>a. map_option toLocaleLowerCase (KeyName a) = Some DimensionTypes_color)
            avs = Some a \<and>
          Swatches a = Some (s # ss)) \<longrightarrow>
      productImageUrl (initial_state fw props) = primaryImageUrl (product props)) \<and>
   (dimensionToPreSelectInProductCard (config props) \<noteq> DimensionTypes_none \<and>
    product props = Some p \<and> AttributeValues p = Some avs \<and>
    find_first (\<lambda>a. map_option toLocaleLowerCase (KeyName a) = Some DimensionTypes_color) avs
      = Some a \<and>
    Swatches a = Some (s # ss) \<longrightarrow>
      productImageUrl (initial_state fw props) =
        (case ProductImageUrls
                (case find_first (\<lambda>i. IsDefault i = Some True) (s # ss) of
                   Some d \<Rightarrow> d | None \<Rightarrow> s) of
           Some (u # us) \<Rightarrow>
             (case generateImageUrl fw (Some u) of
                Some g \<Rightarrow> Some g | None \<Rightarrow> PrimaryImageUrl p)
         | _ \<Rightarrow> PrimaryImageUrl p))"
proof (intro conjI impI)
  assume "dimensionToPreSelectInProductCard (config props) = DimensionTypes_none"
  then show "productImageUrl (initial_state fw props) = primaryImageUrl (product props)"
    by (simp add: initial_state_def getProductImageUrlFromDefaultColorSwatch_def
        split: option.splits)
next
  assume no: "\<not> (\<exists>p avs a s ss. product props = Some p \<and> AttributeValues p = Some avs \<and>
          find_first (\<lambda>a. map_option toLocaleLowerCase (KeyName a) = Some DimensionTypes_color)
            avs = Some a \<and>
          Swatches a = Some (s # ss))"
  have "getDefaultColorSwatchSelected (product props) = None"
  proof (cases "product props")
    case None
    then show ?thesis by (simp add: getDefaultColorSwatchSelected_def)
  next
    case (Some p)
    show ?thesis
    proof (cases "AttributeValues p")
      case None
      with Some show ?thesis by (simp add: getDefaultColorSwatchSelected_def)
    next
      case avs: (Some avs)
      show ?thesis
      proof (cases "find_first (\<lambda>a. map_option toLocaleLowerCase (KeyName a) =
                       Some DimensionTypes_color) avs")
        case None
        with Some avs show ?thesis by (simp add: getDefaultColorSwatchSelected_def)
      next
        case a: (Some a)
        with no Some avs have "\<not> hasElements (Swatches a)"
          by (cases "Swatches a"; cases "the (Swatches a)") auto
        with Some avs a show ?thesis by (simp add: getDefaultColorSwatchSelected_def)
      qed
    qed
  qed
  then show "productImageUrl (initial_state fw props) = primaryImageUrl (product props)"
    by (simp add: initial_state_def getProductImageUrlFromDefaultColorSwatch_def
        split: option.splits)
next
  assume h: "dimensionToPreSelectInProductCard (config props) \<noteq> DimensionTypes_none \<and>
    product props = Some p \<and> AttributeValues p = Some avs \<and>
    find_first (\<lambda>a. map_option toLocaleLowerCase (KeyName a) = Some DimensionTypes_color) avs
      = Some a \<and>
    Swatches a = Some (s # ss)"
  then have sel: "getDefaultColorSwatchSelected (product props) =
      Some (case find_first (\<lambda>i. IsDefault i = Some True) (s # ss) of
                   Some d \<Rightarrow> d | None \<Rightarrow> s)"
    by (simp add: getDefaultColorSwatchSelected_def split: option.splits)
  from h have prim: "primaryImageUrl (product props) = PrimaryImageUrl p"
    by (simp add: primaryImageUrl_def)
  from h sel prim show "productImageUrl (initial_state fw props) =
        (case ProductImageUrls
                (case find_first (\<lambda>i. IsDefault i = Some True) (s # ss) of
                   Some d \<Rightarrow> d | None \<Rightarrow> s) of
           Some (u # us) \<Rightarrow>
             (case generateImageUrl fw (Some u) of
                Some g \<Rightarrow> Some g | None \<Rightarrow> PrimaryImageUrl p)
         | _ \<Rightarrow> PrimaryImageUrl p)"
    by (simp add: initial_state_def getProductImageUrlFromDefaultColorSwatch_def
        split: option.splits list.splits)
qed

theorem initial_image_from_default_swatch_witness:
  "productImageUrl (initial_state example_framework
      (preselect_off (example_props (Some (example_product [example_green]))))) =
     Some ''/primary.png'' \<and>
   productImageUrl (initial_state example_framework
      (example_props (Some (example_product [])))) = Some ''/primary.png'' \<and>
   productImageUrl (initial_state example_framework
      (example_props (Some (example_product [example_red, example_green])))) =
     Some ''/img/green.png''"
proof -
  let ?C = "\<lambda>a. map_option toLocaleLowerCase (KeyName a) = Some DimensionTypes_color"
  let ?col = "\<lambda>cs. \<lparr>KeyName = Some ''Color'', AttributeRecordId = Some 7, Swatches = Some cs\<rparr>"
  let ?size = "\<lparr>KeyName = Some ''Size'', AttributeRecordId = Some 8,
               Swatches = Some [example_medium]\<rparr>"
  have low: "toLocaleLowerCase ''Color'' = ''color''" "toLocaleLowerCase ''Size'' = ''size''"
    by code_simp+
  have off: "dimensionToPreSelectInProductCard
       (config (preselect_off (example_props (Some (example_product [example_green]))))) =
       DimensionTypes_none"
    by (simp add: preselect_off_def DimensionTypes_none_def)
  have none: "\<not> (\<exists>p avs a s ss.
       product (example_props (Some (example_product []))) = Some p \<and>
       AttributeValues p = Some avs \<and> find_first ?C avs = Some a \<and> Swatches a = Some (s # ss))"
    by (auto simp: example_props_def example_product_def low DimensionTypes_color_def)
  have on: "dimensionToPreSelectInProductCard
       (config (example_props (Some (example_product [example_red, example_green])))) \<noteq>
       DimensionTypes_none \<and>
     product (example_props (Some (example_product [example_red, example_green]))) =
       Some (example_product [example_red, example_green]) \<and>
     AttributeValues (example_product [example_red, example_green]) =
       Some [?col [example_red, example_green], ?size] \<and>
     find_first ?C [?col [example_red, example_green], ?size] =
       Some (?col [example_red, example_green]) \<and>
     Swatches (?col [example_red, example_green]) = Some (example_red # [example_green])"
    by (simp add: example_props_def example_product_def low DimensionTypes_color_def
        DimensionTypes_none_def)
  show ?thesis
    using initial_image_from_default_swatch [where fw = example_framework
        and props = "preselect_off (example_props (Some (example_product [example_green])))"]
      initial_image_from_default_swatch [where fw = example_framework
        and props = "example_props (Some (example_product []))"]
      initial_image_from_default_swatch [where fw = example_framework
        and props = "example_props (Some (example_product [example_red, example_green]))"
        and p = "example_product [example_red, example_green]"
        and avs = "[?col [example_red, example_green], ?size]"
        and a = "?col [example_red, example_green]"
        and s = example_red and ss = "[example_green]"]
      off none on
    by (simp add: primaryImageUrl_def preselect_off_def example_props_def example_product_def
        example_red_def example_green_def example_framework_def)
qed

text \<open>
  C3 as stated fails when the colour swatch flagged default carries no product image
  URLs: pre-selection is on, the flagged swatch is chosen, and the image is the primary
  image all the same.
\<close>

theorem default_swatch_image_counterexample:
  "dimensionToPreSelectInProductCard
     (config (example_props (Some (example_product [example_red, example_blue])))) \<noteq>
     DimensionTypes_none \<and>
   getDefaultColorSwatchSelected (Some (example_product [example_red, example_blue])) =
     Some example_blue \<and>
   productImageUrl
     (initial_state example_framework
        (example_props (Some (example_product [example_red, example_blue])))) =
     Some ''/primary.png'' \<and>
   generateImageUrl example_framework (first_element (ProductImageUrls example_blue)) \<noteq>
     Some ''/primary.png''"
  by code_simp

subsection \<open>Swatch items\<close>

text \<open>
  C10. With pre-selection on, every swatch list of the colour dimension that the component
  renders and that is not empty holds a swatch with isDefault set; and when the colour
  attribute's swatches carry no default flag, the first swatch item is the one marked, the
  others being as converted.
\<close>

theorem color_swatches_have_default:
  assumes "dimensionToPreSelectInProductCard (config props) \<noteq> DimensionTypes_none"
  shows "(\<forall>g \<in> set (swatchItems fw props p). \<forall>s \<in> set (swatches g).
            dimensionType s = DimensionTypes_color \<longrightarrow>
            (\<exists>s' \<in> set (swatches g). isDefault s' = Some True)) \<and>
         (\<forall>sw sws. checkIfShouldDisplayAsSwatch fw DimensionTypes_color \<and>
            map_option toLocaleLowerCase (KeyName item) = Some DimensionTypes_color \<and>
            Swatches item = Some (sw # sws) \<and>
            (\<forall>x \<in> set (sw # sws). IsDefault x \<noteq> Some True) \<longrightarrow>
            toSwatchGroup fw props item =
              Some \<lparr>recordId = AttributeRecordId item,
                    swatches =
                      (toSwatchItem fw props item DimensionTypes_color sw)\<lparr>isDefault := Some True\<rparr> #
                      map (toSwatchItem fw props item DimensionTypes_color) sws\<rparr>)"
proof (intro conjI ballI impI allI)
  fix g s assume "g \<in> set (swatchItems fw props p)" "s \<in> set (swatches g)"
    "dimensionType s = DimensionTypes_color"
  then show "\<exists>s' \<in> set (swatches g). isDefault s' = Some True"
    using toSwatchGroup_default [OF _ assms] swatchItems_mem by blast
next
  fix sw sws
  assume h: "checkIfShouldDisplayAsSwatch fw DimensionTypes_color \<and>
            map_option toLocaleLowerCase (KeyName item) = Some DimensionTypes_color \<and>
            Swatches item = Some (sw # sws) \<and>
            (\<forall>x \<in> set (sw # sws). IsDefault x \<noteq> Some True)"
  then have "\<not> list_ex (\<lambda>swatch. isDefault swatch = Some True)
               (map (toSwatchItem fw props item DimensionTypes_color) (sw # sws))"
    by (auto simp: list_ex_iff toSwatchItem_def)
  with h assms show "toSwatchGroup fw props item =
              Some \<lparr>recordId = AttributeRecordId item,
                    swatches =
                      (toSwatchItem fw props item DimensionTypes_color sw)\<lparr>isDefault := Some True\<rparr> #
                      map (toSwatchItem fw props item DimensionTypes_color) sws\<rparr>"
    by (auto simp: toSwatchGroup_def Let_def)
qed

theorem color_swatches_have_default_witness:
  "dimensionToPreSelectInProductCard (config (example_props None)) \<noteq> DimensionTypes_none \<and>
   map (\<lambda>g. map isDefault (swatches g))
     (swatchItems example_framework (example_props None) (example_product [example_red])) =
     [[Some True], [None]] \<and>
   map_option (\<lambda>g. map isDefault (swatches g))
     (toSwatchGroup example_framework (example_props None)
        \<lparr>KeyName = Some ''color'', AttributeRecordId = Some 7,
         Swatches = Some [example_red, example_medium]\<rparr>) = Some [Some True, None]"
proof -
  have cfg: "dimensionToPreSelectInProductCard (config (example_props None)) \<noteq>
      DimensionTypes_none"
    by (simp add: example_props_def DimensionTypes_none_def)
  have ev: "map (\<lambda>g. map isDefault (swatches g))
     (swatchItems example_framework (example_props None) (example_product [example_red])) =
     [[Some True], [None]]"
    by code_simp
  have low: "toLocaleLowerCase ''color'' = ''color''" by code_simp
  have pre: "checkIfShouldDisplayAsSwatch example_framework DimensionTypes_color \<and>
     map_option toLocaleLowerCase
       (KeyName \<lparr>KeyName = Some ''color'', AttributeRecordId = Some 7,
                 Swatches = Some [example_red, example_medium]\<rparr>) = Some DimensionTypes_color \<and>
     Swatches \<lparr>KeyName = Some ''color'', AttributeRecordId = Some 7,
               Swatches = Some [example_red, example_medium]\<rparr> =
       Some (example_red # [example_medium]) \<and>
     (\<forall>x \<in> set (example_red # [example_medium]). IsDefault x \<noteq> Some True)"
    by (simp add: example_framework_def DimensionTypes_color_def low example_red_def
        example_medium_def)
  show ?thesis
    using color_swatches_have_default [OF cfg, where fw = example_framework
        and p = "example_product [example_red]"
        and item = "\<lparr>KeyName = Some ''color'', AttributeRecordId = Some 7,
                       Swatches = Some [example_red, example_medium]\<rparr>"]
      cfg ev pre
    by (simp add: toSwatchItem_def example_red_def example_medium_def)
qed

subsection \<open>The cart button\<close>

text \<open>
  C4, at an availability list whose only entry matches the product's master product id
  and is disabled: the entry is found, and the flag handed to the add-to-cart component
  is the entry's isDisabled, here true.
\<close>

theorem hasAvailableProducts_disabled_entry:
  "productDimensionAvailabilities (example_props None) (example_product []) =
     Some \<lparr>avail_value = ''red'', isDisabled = True, masterProductId = Some 7\<rparr> \<and>
   hasAvailableProducts (example_props None) (example_product []) = Some True \<and>
   renderCartButton (example_props None) (example_product []) =
     Tag ''Node'' ''ms-search-result-container__add-to-cart-container''
       [AddToCartComponent (Some True)
          \<lparr>sp_RecordId = 1, sp_ItemId = Some ''0001'', sp_Name = Some ''Shirt'',
           sp_Description = None, sp_ProductTypeValue = 1,
           sp_DefaultUnitOfMeasure = Some ''ea'', sp_BasePrice = Some (Num 10),
           sp_Price = Some (Num 10), sp_AdjustedPrice = Some (Num 10),
           sp_MasterProductId = Some 7, sp_PrimaryImageUrl = Some ''/primary.png''\<rparr>]"
  by (simp add: hasAvailableProducts_def productDimensionAvailabilities_def example_props_def
      example_product_def renderCartButton_def)

subsection \<open>The product URL\<close>

text \<open>
  C5. For a base that is an http or https origin, updateProductUrl returns the path of the
  parsed URL followed by its query string with the parameter appended: joined with an
  ampersand onto the query string the URL already has, or starting a new query string
  when it has none. The parameter is written as the URL stores it: percent-encoded for the
  query, without tabs and newlines, and, where it starts the query string, without a
  question mark of its own.
\<close>

theorem updateProductUrl_appends:
  assumes "valid_base base"
  shows "updateProductUrl url base q =
           (let u = new_URL url base
            in pathname u @
               (if search u \<noteq> [] then search u @ ''&'' @ query_encode q
                else let e = query_encode (strip_question q)
                     in if e = [] then [] else CHR ''?'' # e))"
  using updateProductUrl_appended [OF assms, of url q]
  by (simp add: appended_def Let_def)

theorem updateProductUrl_appends_witness:
  "valid_base ''https://www.example.com/'' \<and>
   updateProductUrl ''/shirt/1.p?color=red'' ''https://www.example.com/'' ''back=true'' =
     ''/shirt/1.p?color=red&back=true'' \<and>
   updateProductUrl ''/shirt/1.p'' ''https://www.example.com/'' ''back=true'' =
     ''/shirt/1.p?back=true''"
proof -
  have b: "valid_base ''https://www.example.com/''"
    by code_simp
  have u1: "new_URL ''/shirt/1.p?color=red'' ''https://www.example.com/'' =
      \<lparr>origin = ''https://www.example.com'', pathname = ''/shirt/1.p'',
       query = Some ''color=red'', fragment = None\<rparr>"
    by code_simp
  have u2: "new_URL ''/shirt/1.p'' ''https://www.example.com/'' =
      \<lparr>origin = ''https://www.example.com'', pathname = ''/shirt/1.p'',
       query = None, fragment = None\<rparr>"
    by code_simp
  have q: "query_encode ''back=true'' = ''back=true''"
    "query_encode (strip_question ''back=true'') = ''back=true''"
    by code_simp+
  show ?thesis
    using updateProductUrl_appends [OF b, of "''/shirt/1.p?color=red''" "''back=true''"]
      updateProductUrl_appends [OF b, of "''/shirt/1.p''" "''back=true''"] b
    by (simp add: u1 u2 q search_def Let_def)
qed

subsection \<open>The page URL after a swatch selection\<close>

text \<open>
  C2, at the page URL /shirt/1.p?color=red and a swatch of the size dimension with the
  value S&M. The claim is that the callback sets the URL's query parameter size to the
  selected value. The callback writes the value into the query string as it is, without
  escaping it: the new page URL is /shirt/1.p?color=red&size=S&M, in which the parameter
  size reads S, not S&M, and a parameter M has appeared.
\<close>

theorem swatch_value_ampersand_counterexample:
  "\<not> isNullOrWhitespace (swatch_value (example_swatch ''size'' ''S&M'')) \<and>
   productPageUrl
     (updatePageAndImageUrl example_framework
        (example_props (Some (example_product [example_red])))
        (example_state ''/shirt/1.p?color=red'') (example_swatch ''size'' ''S&M'')) =
     ''/shirt/1.p?color=red&size=S&M'' \<and>
   getAll ''size''
     (searchParams (new_URL ''/shirt/1.p?color=red&size=S&M'' ''https://www.example.com/'')) =
     [''S''] \<and>
   [''S''] \<noteq> [''S&M'']"
  by code_simp

theorem swatch_value_ampersand_counterexample_witness:
  "productPageUrl
     (updatePageAndImageUrl example_framework
        (example_props (Some (example_product [example_red])))
        (example_state ''/shirt/1.p?color=red'') (example_swatch ''size'' ''S&M'')) =
     ''/shirt/1.p?color=red&size=S&M'' \<and>
   getAll ''size''
     (searchParams (new_URL ''/shirt/1.p?color=red&size=S&M'' ''https://www.example.com/'')) =
     [''S'']"
  using swatch_value_ampersand_counterexample by simp

text \<open>
  The first render has the same gap: the page URL for a default colour swatch is built
  from its value as it is, so a default colour Black&White links to the colour Black.
\<close>

lemma default_swatch_value_unescaped:
  "productPageUrl
     (initial_state example_framework
        (example_props (Some (example_product [example_black_white])))) =
     ''/shirt/1.p?color=Black&White'' \<and>
   getAll ''color''
     (searchParams (new_URL ''/shirt/1.p?color=Black&White'' ''https://www.example.com/'')) =
     [''Black'']"
  by code_simp

text \<open>
  Where the value needs no escaping the callback does set the parameter. Let the base be
  an http or https origin, the dimension one of the dimension types, and the selected
  value not blank and free of ampersand, plus sign, percent sign, tab and newline (a
  sufficient condition: some values with a percent sign read back unchanged too). Then the
  query parameters of the new page URL are those of the old one, without the parameters
  named like the dimension when the old URL's text contains the dimension's name,
  followed by the dimension with the selected value. So the dimension's parameter has the
  selected value as its only value, provided the old URL names the dimension in its text
  whenever it has such a parameter; and the values of every parameter of another name
  are as before.
\<close>

lemma swatch_sets_query_parameter:
  assumes "valid_base (baseUrl props)"
    and "dimensionType sw \<in> set [DimensionTypes_none, DimensionTypes_color,
           DimensionTypes_configuration, DimensionTypes_size, DimensionTypes_style]"
    and "\<not> isNullOrWhitespace (swatch_value sw)"
    and "plain_value (swatch_value sw)"
    and "old = searchParams (new_URL (productPageUrl st) (baseUrl props))"
    and "new = searchParams (new_URL (productPageUrl (updatePageAndImageUrl fw props st sw))
                 (baseUrl props))"
  shows "new = (if str_includes (productPageUrl st) (dimensionType sw)
                then filter (\<lambda>p. fst p \<noteq> dimensionType sw) old else old) @
               [(dimensionType sw, swatch_value sw)] \<and>
         ((getAll (dimensionType sw) old \<noteq> [] \<longrightarrow>
             str_includes (productPageUrl st) (dimensionType sw)) \<longrightarrow>
          getAll (dimensionType sw) new = [swatch_value sw]) \<and>
         (E \<noteq> dimensionType sw \<longrightarrow> getAll E new = getAll E old)"
proof -
  let ?d = "dimensionType sw"
  have eq: "new = (if str_includes (productPageUrl st) ?d
                then filter (\<lambda>p. fst p \<noteq> ?d) old else old) @ [(?d, swatch_value sw)]"
    unfolding assms(5,6)
    using assms(1) dimension_types_safe [OF assms(2)] assms(3,4) by (rule swatch_url_params)
  have one: "getAll ?d [(?d, swatch_value sw)] = [swatch_value sw]"
    by (simp add: getAll_def)
  have other: "E \<noteq> ?d \<Longrightarrow> getAll E [(?d, swatch_value sw)] = []"
    by (simp add: getAll_def)
  show ?thesis
  proof (intro conjI impI)
    show "new = (if str_includes (productPageUrl st) ?d
                then filter (\<lambda>p. fst p \<noteq> ?d) old else old) @ [(?d, swatch_value sw)]"
      by (rule eq)
  next
    assume h: "getAll ?d old \<noteq> [] \<longrightarrow> str_includes (productPageUrl st) ?d"
    show "getAll ?d new = [swatch_value sw]"
    proof (cases "str_includes (productPageUrl st) ?d")
      case True
      then show ?thesis
        by (simp add: eq getAll_append getAll_filter_same one)
    next
      case False
      with h have "getAll ?d old = []" by blast
      with False show ?thesis
        by (simp add: eq getAll_append one)
    qed
  next
    assume "E \<noteq> ?d"
    then show "getAll E new = getAll E old"
      by (simp add: eq getAll_append getAll_filter_other other)
  qed
qed

lemma swatch_sets_query_parameter_witness:
  "valid_base (baseUrl (example_props (Some (example_product [example_red])))) \<and>
   plain_value (swatch_value (example_swatch ''color'' ''dark blue'')) \<and>
   \<not> isNullOrWhitespace (swatch_value (example_swatch ''color'' ''dark blue'')) \<and>
   str_includes (productPageUrl (example_state ''/shirt/1.p?color=red&size=M'')) ''color'' \<and>
   getAll ''color''
     (searchParams
        (new_URL
           (productPageUrl
              (updatePageAndImageUrl example_framework
                 (example_props (Some (example_product [example_red])))
                 (example_state ''/shirt/1.p?color=red&size=M'')
                 (example_swatch ''color'' ''dark blue'')))
           ''https://www.example.com/'')) = [''dark blue''] \<and>
   getAll ''size''
     (searchParams
        (new_URL
           (productPageUrl
              (updatePageAndImageUrl example_framework
                 (example_props (Some (example_product [example_red])))
                 (example_state ''/shirt/1.p?color=red&size=M'')
                 (example_swatch ''color'' ''dark blue'')))
           ''https://www.example.com/'')) = [''M'']"
proof -
  let ?props = "example_props (Some (example_product [example_red]))"
  let ?st = "example_state ''/shirt/1.p?color=red&size=M''"
  let ?sw = "example_swatch ''color'' ''dark blue''"
  have b: "baseUrl ?props = ''https://www.example.com/''" by (simp add: example_props_def)
  have vb: "valid_base (baseUrl ?props)" unfolding b by code_simp
  have d: "dimensionType ?sw \<in> set [DimensionTypes_none, DimensionTypes_color,
           DimensionTypes_configuration, DimensionTypes_size, DimensionTypes_style]"
    by (simp add: example_swatch_def DimensionTypes_color_def)
  have nb: "\<not> isNullOrWhitespace (swatch_value ?sw)" by code_simp
  have pv: "plain_value (swatch_value ?sw)" by code_simp
  have inc: "str_includes (productPageUrl ?st) ''color''" by code_simp
  have old: "searchParams (new_URL (productPageUrl ?st) ''https://www.example.com/'') =
      [(''color'', ''red''), (''size'', ''M'')]"
    by code_simp
  have dt: "dimensionType ?sw = ''color''" "swatch_value ?sw = ''dark blue''"
    by (simp_all add: example_swatch_def)
  show ?thesis
    using swatch_sets_query_parameter [OF vb d nb pv refl refl, of example_framework ?st "''size''"]
      vb pv nb inc
    by (simp add: old dt b getAll_def)
qed

end
